theory Spec2Isabelle
  imports Main "HOL-Library.Word" "HOL-Library.Sublist"
begin

section \<open>Strings\<close>

text \<open>
  Protocol strings (argument vectors, identifiers, paths, messages) are modelled as
  \<^typ>\<open>string\<close>: one \<^typ>\<open>char\<close> per code unit below 0x100. The typed-text validator, whose
  claim is about code units of any value, works on 16-bit code units (see
  \<open>textInputSchema\<close>).
\<close>

text \<open>\<^verbatim>\<open>String.prototype.startsWith\<close> and \<^verbatim>\<open>String.prototype.includes\<close>.\<close>

fun startsWith :: "string \<Rightarrow> string \<Rightarrow> bool" where
  "startsWith s [] = True"
| "startsWith [] (p # ps) = False"
| "startsWith (c # cs) (p # ps) = (c = p \<and> startsWith cs ps)"

fun includesStr :: "string \<Rightarrow> string \<Rightarrow> bool" where
  "includesStr [] pat = (pat = [])"
| "includesStr (c # cs) pat = (startsWith (c # cs) pat \<or> includesStr cs pat)"

text \<open>
  \<^verbatim>\<open>String.prototype.trim\<close>, on code units below 0x100: the white space and line
  terminators there are TAB, LF, VT, FF, CR, SPACE and NBSP.
\<close>

definition isWhiteSpace :: "char \<Rightarrow> bool" where
  "isWhiteSpace c = (of_char c \<in> {9, 10, 11, 12, 13, 32, 160 :: nat})"

definition trim :: "string \<Rightarrow> string" where
  "trim s = rev (dropWhile isWhiteSpace (rev (dropWhile isWhiteSpace s)))"

text \<open>\<^verbatim>\<open>Array.prototype.join\<close> on strings.\<close>

fun join :: "string list \<Rightarrow> string \<Rightarrow> string" where
  "join [] sep = []"
| "join [x] sep = x"
| "join (x # y # ys) sep = x @ sep @ join (y # ys) sep"

section \<open>Error taxonomy (utils/error-handler)\<close>

datatype ErrorCode =
    SUCCESS
  | GENERAL_ERROR
  | INVALID_ARGUMENTS
  | SIMULATOR_NOT_FOUND
  | TIMEOUT
  | PERMISSION_DENIED
  | FILE_NOT_FOUND
  | COMMAND_NOT_FOUND

text \<open>The numeric value of each member of the enum: the process exit code.\<close>

fun ErrorCode_value :: "ErrorCode \<Rightarrow> nat" where
  "ErrorCode_value SUCCESS = 0"
| "ErrorCode_value GENERAL_ERROR = 1"
| "ErrorCode_value INVALID_ARGUMENTS = 2"
| "ErrorCode_value SIMULATOR_NOT_FOUND = 3"
| "ErrorCode_value TIMEOUT = 4"
| "ErrorCode_value PERMISSION_DENIED = 5"
| "ErrorCode_value FILE_NOT_FOUND = 6"
| "ErrorCode_value COMMAND_NOT_FOUND = 127"

text \<open>
  One issue of a \<^verbatim>\<open>ZodError\<close>: its path and its message. The \<^verbatim>\<open>code\<close> property of an
  error of the runtime: absent, a number (the exit status of a child process) or a string
  (\<^verbatim>\<open>'ETIMEDOUT'\<close>, \<^verbatim>\<open>'ENOENT'\<close>).
\<close>

datatype ZodIssue = ZodIssue "string list" string

datatype code_prop = NoCode | NumCode int | StrCode string

text \<open>
  What a \<^verbatim>\<open>throw\<close> can carry: a \<^verbatim>\<open>SimulatorError\<close> (message, code, optional suggestions),
  a \<^verbatim>\<open>ZodError\<close>, any other \<^verbatim>\<open>Error\<close> (message and \<^verbatim>\<open>code\<close> property), or a value that is
  not an \<^verbatim>\<open>Error\<close> at all.
\<close>

datatype thrown =
    SimulatorError string ErrorCode "string list option"
  | ZodError "ZodIssue list"
  | Error string code_prop
  | NonError

text \<open>The bullet of the suggestion lines, U+2022, as its UTF-8 bytes.\<close>

definition bullet :: string where
  "bullet = [CHR 0xE2, CHR 0x80, CHR 0xA2]"

fun issueLine :: "ZodIssue \<Rightarrow> string" where
  "issueLine (ZodIssue p m) = ''  '' @ bullet @ '' '' @ join p ''.'' @ '': '' @ m"

text \<open>
  What \<^verbatim>\<open>handleError\<close> decides before it prints and exits: the exit code, the message and
  the suggestions. The rendering (JSON object or coloured text) prints exactly these three
  and is not modelled.
\<close>

datatype Report = Report (exitCode: ErrorCode) (message: string) (suggestions: "string list")

text \<open>The chain of substring tests on the message of a plain \<^verbatim>\<open>Error\<close>, in source order.\<close>

definition detect :: "string \<Rightarrow> Report" where
  "detect msg =
     (if includesStr msg ''No booted simulator'' then
        Report SIMULATOR_NOT_FOUND msg
          [''Open Simulator.app'', ''Run: sim-cli open'', ''Specify a device: --device <udid>'']
      else if includesStr msg ''timed out'' then
        Report TIMEOUT msg
          [''Increase timeout with --timeout flag'', ''Check if simulator is responsive'']
      else if includesStr msg ''EACCES'' \<or> includesStr msg ''permission denied'' then
        Report PERMISSION_DENIED msg
          [''Check file/directory permissions'',
           ''Ensure Xcode command line tools are installed'',
           ''Try: xcode-select --install'']
      else if includesStr msg ''ENOENT'' \<or> includesStr msg ''not found'' then
        Report FILE_NOT_FOUND msg []
      else if includesStr msg ''command not found'' then
        Report COMMAND_NOT_FOUND msg
          [''Ensure all dependencies are installed'',
           ''Check that idb is installed: brew install facebook/fb/idb-companion'',
           ''Verify Xcode installation'']
      else Report GENERAL_ERROR msg [])"

fun handleError :: "thrown \<Rightarrow> Report" where
  "handleError (SimulatorError msg code sugg) =
     Report code msg (case sugg of None \<Rightarrow> [] | Some xs \<Rightarrow> xs)"
| "handleError (ZodError issues) =
     Report INVALID_ARGUMENTS ''Invalid arguments provided'' (map issueLine issues)"
| "handleError (Error msg c) = detect msg"
| "handleError NonError = Report GENERAL_ERROR ''An unexpected error occurred'' []"

section \<open>Input validation (utils/validator)\<close>

text \<open>
  \<^verbatim>\<open>textInputSchema\<close>: a string of at most 500 code units that matches
  \<^verbatim>\<open>/^[\x20-\x7E]+$/\<close>. A JavaScript string is a sequence of UTF-16 code units, \<^verbatim>\<open>length\<close>
  counts them, and the regular expression (no \<^verbatim>\<open>u\<close> flag) matches them one by one. Zod runs
  both checks and fails with the issues of every check that failed.
\<close>

type_synonym js_text = "16 word list"

definition printable :: "16 word \<Rightarrow> bool" where
  "printable c = (0x20 \<le> c \<and> c \<le> 0x7E)"

definition matchesPrintablePlus :: "js_text \<Rightarrow> bool" where
  "matchesPrintablePlus s = (s \<noteq> [] \<and> list_all printable s)"

definition textInputIssues :: "js_text \<Rightarrow> ZodIssue list" where
  "textInputIssues s =
     (if 500 < length s then [ZodIssue [] ''Text is too long (max 500 characters)''] else []) @
     (if matchesPrintablePlus s then []
      else [ZodIssue [] ''Text must contain only ASCII printable characters''])"

definition textInputSchema :: "js_text \<Rightarrow> thrown + js_text" where
  "textInputSchema s =
     (if textInputIssues s = [] then Inr s else Inl (ZodError (textInputIssues s)))"

text \<open>
  \<^verbatim>\<open>UDID_REGEX\<close>: five groups of 8, 4, 4, 4 and 12 hexadecimal digits joined by dashes,
  anchored at both ends. \<open>hexDigits n s\<close> consumes \<open>n\<close> hexadecimal digits of \<open>s\<close> and
  returns the rest; \<open>dash\<close> consumes one \<^verbatim>\<open>-\<close>.
\<close>

definition isHexDigit :: "char \<Rightarrow> bool" where
  "isHexDigit c = (c \<in> set ''0123456789ABCDEFabcdef'')"

fun hexDigits :: "nat \<Rightarrow> string \<Rightarrow> string option" where
  "hexDigits 0 s = Some s"
| "hexDigits (Suc n) [] = None"
| "hexDigits (Suc n) (c # cs) = (if isHexDigit c then hexDigits n cs else None)"

fun dash :: "string \<Rightarrow> string option" where
  "dash [] = None"
| "dash (c # cs) = (if c = CHR ''-'' then Some cs else None)"

definition UDID_REGEX_test :: "string \<Rightarrow> bool" where
  "UDID_REGEX_test s =
     (Option.bind (Option.bind (Option.bind (Option.bind (Option.bind (Option.bind (Option.bind
        (Option.bind (hexDigits 8 s) dash) (hexDigits 4)) dash) (hexDigits 4)) dash)
        (hexDigits 4)) dash) (hexDigits 12) = Some [])"

text \<open>\<^verbatim>\<open>udidSchema.safeParse(x).success\<close>.\<close>

definition udidSchema_success :: "string \<Rightarrow> bool" where
  "udidSchema_success s = UDID_REGEX_test s"

text \<open>
  \<^verbatim>\<open>durationSchema\<close>: \<^verbatim>\<open>/^\d+(\.\d+)?$/\<close>, one or more digits, then optionally a dot and one
  or more digits.
\<close>

definition isDigit :: "char \<Rightarrow> bool" where
  "isDigit c = (c \<in> set ''0123456789'')"

definition durationRegex_test :: "string \<Rightarrow> bool" where
  "durationRegex_test s =
     (takeWhile isDigit s \<noteq> [] \<and>
      (case dropWhile isDigit s of
         [] \<Rightarrow> True
       | c # frac \<Rightarrow> c = CHR ''.'' \<and> frac \<noteq> [] \<and> list_all isDigit frac))"

definition durationSchema :: "string \<Rightarrow> thrown + string" where
  "durationSchema s =
     (if durationRegex_test s then Inr s
      else Inl (ZodError [ZodIssue [] ''Duration must be a positive number'']))"

text \<open>
  \<^verbatim>\<open>hardwareButtonSchema\<close>: a closed enumeration, compared as it is (the caller lowercases).
  The message of the issue is the library's.
\<close>

definition hardwareButtons :: "string list" where
  "hardwareButtons =
     [''home'', ''lock'', ''volume-up'', ''volume-down'', ''ringer'', ''power'', ''home+lock'']"

definition hardwareButtonSchema :: "string \<Rightarrow> thrown + string" where
  "hardwareButtonSchema s =
     (if s \<in> set hardwareButtons then Inr s
      else Inl (ZodError [ZodIssue []
        (''Invalid enum value. Expected '' @
         join (map (\<lambda>b. [CHR 0x27] @ b @ [CHR 0x27]) hardwareButtons) '' | '' @
         '', received '' @ [CHR 0x27] @ s @ [CHR 0x27])]))"

text \<open>
  \<^verbatim>\<open>bundleIdSchema\<close>: at most 256 code units, matching \<^verbatim>\<open>/^[a-zA-Z0-9.-]+$/\<close>.
\<close>

definition isBundleIdChar :: "char \<Rightarrow> bool" where
  "isBundleIdChar c =
     (c \<in> set ''abcdefghijklmnopqrstuvwxyzABCDEFGHIJKLMNOPQRSTUVWXYZ0123456789.-'')"

definition bundleIdIssues :: "string \<Rightarrow> ZodIssue list" where
  "bundleIdIssues s =
     (if 256 < length s then [ZodIssue [] ''Bundle ID is too long (max 256 characters)'']
      else []) @
     (if s \<noteq> [] \<and> list_all isBundleIdChar s then []
      else [ZodIssue [] ''Invalid bundle ID format''])"

definition bundleIdSchema :: "string \<Rightarrow> thrown + string" where
  "bundleIdSchema s =
     (if bundleIdIssues s = [] then Inr s else Inl (ZodError (bundleIdIssues s)))"

text \<open>
  \<^verbatim>\<open>String.prototype.toLowerCase\<close> on ASCII: the letters A to Z are mapped, every other
  code unit is left as it is. (Beyond ASCII the runtime also lowercases other letters; the
  model covers ASCII names.)
\<close>

definition toLowerChar :: "char \<Rightarrow> char" where
  "toLowerChar c =
     (case map_of (zip ''ABCDEFGHIJKLMNOPQRSTUVWXYZ'' ''abcdefghijklmnopqrstuvwxyz'') c of
        None \<Rightarrow> c | Some d \<Rightarrow> d)"

definition toLowerCase :: "string \<Rightarrow> string" where
  "toLowerCase s = map toLowerChar s"

text \<open>\<^verbatim>\<open>String.prototype.split\<close> with a one-character separator.\<close>

fun split :: "string \<Rightarrow> char \<Rightarrow> string list" where
  "split [] sep = [[]]"
| "split (c # cs) sep =
     (if c = sep then [] # split cs sep
      else (case split cs sep of [] \<Rightarrow> [[c]] | x # xs \<Rightarrow> (c # x) # xs))"

text \<open>
  \<^verbatim>\<open>String(n)\<close> for a number that is an integer (below 10^21 in size, where the runtime
  prints plain decimal digits). Numbers with a fraction are outside the model.
\<close>

fun showNat :: "nat \<Rightarrow> string" where
  "showNat n =
     (if n < 10 then [''0123456789'' ! n]
      else showNat (n div 10) @ [''0123456789'' ! (n mod 10)])"

declare showNat.simps [simp del]

definition String_of :: "int \<Rightarrow> string" where
  "String_of i = (if i < 0 then CHR ''-'' # showNat (nat (- i)) else showNat (nat i))"

section \<open>The process and its surroundings\<close>

text \<open>
  An invocation is a binary name and an argument vector. A blocking call yields the two
  captured streams or throws.
\<close>

type_synonym invocation = "string \<times> string list"

record ExecutorResult =
  stdout :: string
  stderr :: string

text \<open>
  The handle of a background child, as the recording handler observes it in the three
  seconds after the spawn: the chunks of its error stream delivered in that window (in
  order), whether the child has exited in that window, and the handle's \<^verbatim>\<open>killed\<close> property
  when the timer fires. The runtime sets \<^verbatim>\<open>killed\<close> only once the parent's own \<^verbatim>\<open>kill()\<close> has
  delivered a signal to the child; a child that exits by itself leaves it \<^verbatim>\<open>false\<close>.
\<close>

record ChildProcess =
  pid :: nat
  stderrChunks :: "string list"
  exited :: bool
  killed :: bool

text \<open>
  One device record of the listing, after \<^verbatim>\<open>JSON.parse\<close>; \<^verbatim>\<open>isAvailable\<close> may be absent.
  \<^verbatim>\<open>SimulatorDevice\<close> is what the resolver returns.
\<close>

record DeviceJson =
  dj_name :: string
  dj_udid :: string
  dj_state :: string
  dj_isAvailable :: "bool option"
  dj_deviceTypeIdentifier :: string

record SimulatorDevice =
  name :: string
  udid :: string
  state :: string
  isAvailable :: bool
  deviceTypeIdentifier :: string
  runtimeIdentifier :: string

text \<open>Values handed to \<^verbatim>\<open>logger.json\<close>.\<close>

datatype json =
    JNull
  | JBool bool
  | JNum int
  | JStr string
  | JObj "(string \<times> json) list"

datatype LogLevel = ERROR | WARN | INFO | DEBUG | VERBOSE

fun LogLevel_value :: "LogLevel \<Rightarrow> nat" where
  "LogLevel_value ERROR = 0"
| "LogLevel_value WARN = 1"
| "LogLevel_value INFO = 2"
| "LogLevel_value DEBUG = 3"
| "LogLevel_value VERBOSE = 4"

text \<open>What reaches the terminal: spinner transitions, console lines, JSON documents.\<close>

datatype out_event =
    SpinnerStart string
  | SpinnerSucceed "string option"
  | SpinnerFail
  | ConsoleSuccess string
  | ConsoleWarn string
  | ConsoleInfo string
  | ConsoleJson json

text \<open>
  The world of one run of the tool. The first group is what the surroundings answer:
  \<^item> \<open>execFile\<close>: the outcome of a blocking child process for an invocation: the two
    streams, or the message and \<^verbatim>\<open>code\<close> property of the \<^verbatim>\<open>Error\<close> the runtime rejects with;
  \<^item> \<open>spawnChild\<close>: the handle of a background child;
  \<^item> \<open>parseDevices\<close>: \<^verbatim>\<open>JSON.parse\<close> of the device listing followed by the traversal's
    property reads, as the document the device-control utility promises: runtime
    identifiers in enumeration order, each with its device records; \<open>None\<close> when parsing
    or a property read throws;
  \<^item> \<open>accessOk\<close>, \<open>statIsDirectory\<close>: the file system as \<^verbatim>\<open>fileExists\<close> and \<^verbatim>\<open>isDirectory\<close>
    see it;
  \<^item> \<open>pathResolve\<close>: \<^verbatim>\<open>path.resolve\<close> of a relative path against the working directory;
  \<^item> \<open>resolveFilePath\<close>, \<open>generateTimestampedFilename\<close>: the path helpers of utils/paths.
  The second group is state the tool changes: the environment variables, the logger
  (its level, read from the environment when the logger is constructed, and whether a
  spinner is active), the terminal output and the log of invocations handed to the
  executor, in order.
\<close>

record world =
  execFile :: "invocation \<Rightarrow> (string \<times> code_prop) + ExecutorResult"
  spawnChild :: "invocation \<Rightarrow> ChildProcess"
  parseDevices :: "string \<Rightarrow> (string \<times> DeviceJson list) list option"
  accessOk :: "string \<Rightarrow> bool"
  statIsDirectory :: "string \<Rightarrow> bool"
  pathResolve :: "string \<Rightarrow> string"
  resolveFilePath :: "string \<Rightarrow> string"
  generateTimestampedFilename :: "string \<Rightarrow> string \<Rightarrow> string"
  env :: "string \<Rightarrow> string option"
  level :: LogLevel
  spinner :: bool
  console :: "out_event list"
  spawned :: "invocation list"

text \<open>A value of JavaScript is truthy as a string when it is defined and not empty.\<close>

fun truthy :: "string option \<Rightarrow> bool" where
  "truthy None = False"
| "truthy (Some s) = (s \<noteq> [])"

text \<open>
  A computation that may throw and that changes the world. \<open>bindE\<close> is sequencing:
  a throw skips the rest. \<open>catchE\<close> is \<^verbatim>\<open>try\<close> with a \<^verbatim>\<open>catch\<close> block that receives the thrown
  value and the world as it was when the throw happened.
\<close>

type_synonym 'a action = "world \<Rightarrow> (thrown + 'a) \<times> world"

definition bindE :: "'a action \<Rightarrow> ('a \<Rightarrow> 'b action) \<Rightarrow> 'b action" where
  "bindE m f w = (case m w of (Inl e, w') \<Rightarrow> (Inl e, w') | (Inr a, w') \<Rightarrow> f a w')"

definition catchE :: "'a action \<Rightarrow> (thrown \<Rightarrow> 'a action) \<Rightarrow> 'a action" where
  "catchE m h w = (case m w of (Inl e, w') \<Rightarrow> h e w' | (Inr a, w') \<Rightarrow> (Inr a, w'))"

definition returnE :: "'a \<Rightarrow> 'a action" where
  "returnE a w = (Inr a, w)"

definition throwE :: "thrown \<Rightarrow> 'a action" where
  "throwE e w = (Inl e, w)"

text \<open>A step that only changes the world.\<close>

definition effect :: "(world \<Rightarrow> world) \<Rightarrow> unit action" where
  "effect f w = (Inr (), f w)"

text \<open>The value of an optional string when it is truthy.\<close>

fun whenTruthy :: "string option \<Rightarrow> string option" where
  "whenTruthy None = None"
| "whenTruthy (Some s) = (if s = [] then None else Some s)"

section \<open>Logger (utils/logger)\<close>

definition FORMAT_json :: "world \<Rightarrow> bool" where
  "FORMAT_json w = (env w ''SIM_CLI_FORMAT'' = Some ''json'')"

definition emit :: "out_event \<Rightarrow> world \<Rightarrow> world" where
  "emit e w = w\<lparr>console := console w @ [e]\<rparr>"

definition shouldLog :: "LogLevel \<Rightarrow> world \<Rightarrow> bool" where
  "shouldLog l w = (LogLevel_value l \<le> LogLevel_value (level w) \<and> \<not> FORMAT_json w)"

definition startSpinner :: "string \<Rightarrow> world \<Rightarrow> world" where
  "startSpinner msg w =
     (if \<not> FORMAT_json w \<and> \<not> truthy (env w ''SIM_CLI_QUIET'')
      then emit (SpinnerStart msg) (w\<lparr>spinner := True\<rparr>) else w)"

definition stopSpinner :: "bool \<Rightarrow> world \<Rightarrow> world" where
  "stopSpinner ok w =
     (if spinner w
      then emit (if ok then SpinnerSucceed None else SpinnerFail) (w\<lparr>spinner := False\<rparr>)
      else w)"

definition success :: "string \<Rightarrow> world \<Rightarrow> world" where
  "success msg w =
     (if spinner w then emit (SpinnerSucceed (Some msg)) (w\<lparr>spinner := False\<rparr>)
      else if shouldLog INFO w then emit (ConsoleSuccess msg) w
      else w)"

definition warn :: "string \<Rightarrow> world \<Rightarrow> world" where
  "warn msg w = (if shouldLog WARN w then emit (ConsoleWarn msg) w else w)"

definition info :: "string \<Rightarrow> world \<Rightarrow> world" where
  "info msg w = (if shouldLog INFO w then emit (ConsoleInfo msg) w else w)"

definition logJson :: "json \<Rightarrow> world \<Rightarrow> world" where
  "logJson data w = (if FORMAT_json w then emit (ConsoleJson data) w else w)"

section \<open>Process executor (utils/executor)\<close>

text \<open>The \<^verbatim>\<open>code\<close> property read off a caught value.\<close>

fun codeOf :: "thrown \<Rightarrow> code_prop" where
  "codeOf (SimulatorError m c sugg) = NumCode (int (ErrorCode_value c))"
| "codeOf (ZodError issues) = NoCode"
| "codeOf (Error m c) = c"
| "codeOf NonError = NoCode"

text \<open>
  The \<^verbatim>\<open>message\<close> property of a caught value that is an \<^verbatim>\<open>Error\<close>. (The library renders the
  message of a \<^verbatim>\<open>ZodError\<close> as the JSON text of its issues; the model keeps the issues'
  messages, one per line.)
\<close>

fun issueMessage :: "ZodIssue \<Rightarrow> string" where
  "issueMessage (ZodIssue p m) = m"

fun errorMessage :: "thrown \<Rightarrow> string option" where
  "errorMessage (SimulatorError m c sugg) = Some m"
| "errorMessage (ZodError issues) = Some (join (map issueMessage issues) [CHR 0x0A])"
| "errorMessage (Error m c) = Some m"
| "errorMessage NonError = None"

text \<open>
  \<^verbatim>\<open>run\<close>: the blocking call. The timeout option is in seconds, 30 when absent or zero. Every
  invocation handed to the runtime is logged in \<open>spawned\<close>. Both streams are trimmed; a
  failure whose code is \<^verbatim>\<open>'ETIMEDOUT'\<close> is replaced by a fresh \<^verbatim>\<open>Error\<close>, any other failure is
  rethrown as it is.
\<close>

definition logSpawn :: "invocation \<Rightarrow> world \<Rightarrow> world" where
  "logSpawn call w = w\<lparr>spawned := spawned w @ [call]\<rparr>"

definition run :: "string \<Rightarrow> string list \<Rightarrow> nat option \<Rightarrow> ExecutorResult action" where
  "run command args timeoutOpt w =
     (let timeout = (case timeoutOpt of None \<Rightarrow> 30000
                     | Some t \<Rightarrow> if t = 0 then 30000 else t * 1000)
      in case execFile w (command, args) of
           Inr r \<Rightarrow>
             (Inr \<lparr>stdout = trim (stdout r), stderr = trim (stderr r)\<rparr>,
              logSpawn (command, args) w)
         | Inl (m, c) \<Rightarrow>
             (if c = StrCode ''ETIMEDOUT''
              then (Inl (Error (''Command timed out after '' @ showNat (timeout div 1000) @
                                '' seconds'') NoCode),
                    logSpawn (command, args) w)
              else (Inl (Error m c), logSpawn (command, args) w)))"

definition runBackground :: "string \<Rightarrow> string list \<Rightarrow> world \<Rightarrow> ChildProcess \<times> world" where
  "runBackground command args w = (spawnChild w (command, args), logSpawn (command, args) w)"

text \<open>\<^verbatim>\<open>killProcess\<close>: a failure of \<^verbatim>\<open>pkill\<close> whose code is the number 1 is swallowed.\<close>

definition killProcess :: "string \<Rightarrow> unit action" where
  "killProcess pattern =
     catchE (bindE (run ''pkill'' [''-SIGINT'', ''-f'', pattern] None) (\<lambda>r. returnE ()))
       (\<lambda>e. if codeOf e = NumCode 1 then returnE () else throwE e)"

section \<open>Device resolver (utils/device)\<close>

text \<open>The two nested loops of \<^verbatim>\<open>getBootedDevice\<close>: the first device whose state is Booted.\<close>

fun findBooted :: "string \<Rightarrow> DeviceJson list \<Rightarrow> SimulatorDevice option" where
  "findBooted runtime [] = None"
| "findBooted runtime (d # ds) =
     (if dj_state d = ''Booted''
      then Some \<lparr>name = dj_name d, udid = dj_udid d, state = dj_state d,
                 isAvailable = (case dj_isAvailable d of None \<Rightarrow> True | Some b \<Rightarrow> b),
                 deviceTypeIdentifier = dj_deviceTypeIdentifier d,
                 runtimeIdentifier = runtime\<rparr>
      else findBooted runtime ds)"

fun searchRuntimes :: "(string \<times> DeviceJson list) list \<Rightarrow> SimulatorDevice option" where
  "searchRuntimes [] = None"
| "searchRuntimes ((runtime, deviceList) # rest) =
     (case findBooted runtime deviceList of
        Some d \<Rightarrow> Some d
      | None \<Rightarrow> searchRuntimes rest)"

definition listDevicesArgs :: "string list" where
  "listDevicesArgs = [''simctl'', ''list'', ''devices'', ''--json'']"

definition noBootedError :: thrown where
  "noBootedError =
     SimulatorError ''No simulator is currently booted'' SIMULATOR_NOT_FOUND
       (Some [''Open Simulator.app'', ''Run: sim-cli open'',
              ''Specify a device with --device <udid>''])"

definition getBootedDevice :: "SimulatorDevice action" where
  "getBootedDevice =
     bindE (run ''xcrun'' listDevicesArgs None) (\<lambda>r.
       if stderr r \<noteq> []
       then throwE (SimulatorError (''Failed to list devices: '' @ stderr r) GENERAL_ERROR None)
       else (\<lambda>w.
         case parseDevices w (stdout r) of
           None \<Rightarrow> throwE (SimulatorError ''Failed to parse device list'' GENERAL_ERROR None) w
         | Some devices \<Rightarrow>
             (case searchRuntimes devices of
                Some d \<Rightarrow> returnE d w
              | None \<Rightarrow> throwE noBootedError w)))"

definition getDeviceId :: "string option \<Rightarrow> string action" where
  "getDeviceId providedId w =
     (case whenTruthy providedId of
        Some p \<Rightarrow>
          (if udidSchema_success p then returnE p w
           else throwE (SimulatorError ''Invalid device UDID format'' INVALID_ARGUMENTS
                  (Some [''UDID must be in format: XXXXXXXX-XXXX-XXXX-XXXX-XXXXXXXXXXXX''])) w)
      | None \<Rightarrow>
          (case whenTruthy (env w ''SIM_CLI_DEVICE'') of
             Some envDevice \<Rightarrow>
               (if udidSchema_success envDevice then returnE envDevice w
                else throwE (SimulatorError
                       ''Invalid device UDID in SIM_CLI_DEVICE environment variable''
                       INVALID_ARGUMENTS None) w)
           | None \<Rightarrow> bindE getBootedDevice (\<lambda>device. returnE (udid device)) w))"

section \<open>Helpers of the command handlers\<close>

text \<open>A validation result inside an action; a JSON document printed in JSON mode only.\<close>

definition liftE :: "thrown + 'a \<Rightarrow> 'a action" where
  "liftE v w = (v, w)"

definition whenJson :: "json \<Rightarrow> unit action" where
  "whenJson data w = (if FORMAT_json w then effect (logJson data) w else returnE () w)"

text \<open>The \<^verbatim>\<open>catch\<close> block shared by the handlers: stop the spinner as failed, rethrow.\<close>

definition failSpinner :: "thrown \<Rightarrow> 'a action" where
  "failSpinner error = bindE (effect (stopSpinner False)) (\<lambda>u. throwE error)"

section \<open>Pointer and button commands (commands/ui)\<close>

definition tap :: "int \<Rightarrow> int \<Rightarrow> string option \<Rightarrow> string option \<Rightarrow> unit action" where
  "tap x y duration device =
     bindE (getDeviceId device) (\<lambda>deviceId.
     bindE (effect (startSpinner
              (''Tapping at ('' @ String_of x @ '', '' @ String_of y @ '')...''))) (\<lambda>u.
     catchE
       (bindE
          (case whenTruthy duration of
             None \<Rightarrow> returnE [''ui'', ''tap'', ''--udid'', deviceId, ''--json'']
           | Some d \<Rightarrow>
               bindE (liftE (durationSchema d)) (\<lambda>dur.
                 returnE ([''ui'', ''tap'', ''--udid'', deviceId, ''--json''] @
                          [''--duration'', dur])))
          (\<lambda>args.
       bindE (run ''idb'' (args @ [''--'', String_of x, String_of y]) None) (\<lambda>r.
         if stderr r \<noteq> []
         then throwE (SimulatorError (''Tap failed: '' @ stderr r) GENERAL_ERROR None)
         else
           bindE (effect (success
                    (''Tapped at ('' @ String_of x @ '', '' @ String_of y @ '')''))) (\<lambda>u.
           whenJson (JObj [(''success'', JBool True), (''x'', JNum x), (''y'', JNum y),
                           (''device'', JStr deviceId)])))))
       failSpinner))"

definition buttonMap :: "string \<Rightarrow> (string \<times> string list) list" where
  "buttonMap deviceId =
     [(''home'', [''ui'', ''button'', ''--udid'', deviceId, ''--'', ''HOME'']),
      (''lock'', [''ui'', ''button'', ''--udid'', deviceId, ''--'', ''LOCK'']),
      (''power'', [''ui'', ''button'', ''--udid'', deviceId, ''--'', ''LOCK'']),
      (''volume-up'', [''ui'', ''button'', ''--udid'', deviceId, ''--'', ''VOLUME_UP'']),
      (''volume-down'', [''ui'', ''button'', ''--udid'', deviceId, ''--'', ''VOLUME_DOWN'']),
      (''ringer'', [''ui'', ''button'', ''--udid'', deviceId, ''--'', ''RINGER''])]"

definition press :: "string \<Rightarrow> string option \<Rightarrow> unit action" where
  "press button device =
     bindE (liftE (hardwareButtonSchema (toLowerCase button))) (\<lambda>validatedButton.
     bindE (getDeviceId device) (\<lambda>deviceId.
     bindE (effect (startSpinner (''Pressing '' @ button @ '' button...''))) (\<lambda>u.
     catchE
       (bindE
          (if includesStr validatedButton ''+'' then
             (if ''home'' \<in> set (split validatedButton CHR ''+'') \<and>
                 ''lock'' \<in> set (split validatedButton CHR ''+'')
              then
                bindE (run ''xcrun'' [''simctl'', ''io'', deviceId, ''screenshot'', ''--type=png'']
                         None) (\<lambda>r.
                effect (success ''Screenshot gesture performed''))
              else throwE (SimulatorError (''Unsupported button combination: '' @ button)
                             INVALID_ARGUMENTS None))
           else
             (case map_of (buttonMap deviceId) validatedButton of
                None \<Rightarrow>
                  throwE (SimulatorError (''Unsupported button: '' @ button)
                            INVALID_ARGUMENTS None)
              | Some args \<Rightarrow>
                  bindE (run ''idb'' args None) (\<lambda>r.
                  effect (success (''Pressed '' @ button @ '' button'')))))
          (\<lambda>u. whenJson (JObj [(''success'', JBool True), (''button'', JStr validatedButton),
                                (''device'', JStr deviceId)])))
       failSpinner)))"

section \<open>App installation (commands/app)\<close>

text \<open>
  \<^verbatim>\<open>path.isAbsolute\<close> and \<^verbatim>\<open>path.extname\<close> of the runtime (POSIX). The extension is read off
  the last component of the path, trailing slashes ignored: from its last dot to its end,
  and empty when the component has no dot, starts at its only dot, or is \<^verbatim>\<open>..\<close>.
\<close>

fun isAbsolute :: "string \<Rightarrow> bool" where
  "isAbsolute [] = False"
| "isAbsolute (c # cs) = (c = CHR ''/'')"

definition basenameRev :: "string \<Rightarrow> string" where
  "basenameRev p = takeWhile (\<lambda>c. c \<noteq> CHR ''/'') (dropWhile (\<lambda>c. c = CHR ''/'') (rev p))"

definition extname :: "string \<Rightarrow> string" where
  "extname p =
     (let b = basenameRev p; e = takeWhile (\<lambda>c. c \<noteq> CHR ''.'') b
      in if CHR ''.'' \<notin> set b then []
         else if drop (Suc (length e)) b = [] then []
         else if b = ''..'' then []
         else CHR ''.'' # rev e)"

definition notFoundError :: "string \<Rightarrow> thrown" where
  "notFoundError absolutePath =
     SimulatorError (''App bundle not found: '' @ absolutePath) FILE_NOT_FOUND
       (Some [''Check the file path is correct'', ''Ensure the .app or .ipa file exists''])"

text \<open>
  The first step of \<^verbatim>\<open>install\<close>: an absolute path is kept, a relative one is resolved
  against the working directory.
\<close>

definition absolutePathOf :: "world \<Rightarrow> string \<Rightarrow> string" where
  "absolutePathOf w appPath = (if isAbsolute appPath then appPath else pathResolve w appPath)"

text \<open>The extension checks of \<^verbatim>\<open>install\<close>, nested as in the source.\<close>

definition checkBundle :: "string \<Rightarrow> unit action" where
  "checkBundle absolutePath w =
     (let ext = toLowerCase (extname absolutePath)
      in if ext \<noteq> ''.app'' \<and> ext \<noteq> ''.ipa'' then
           (if ext = ''.app'' \<and> \<not> statIsDirectory w absolutePath then
              throwE (SimulatorError ''Invalid app bundle: .app should be a directory''
                        INVALID_ARGUMENTS None) w
            else if ext \<noteq> ''.app'' then
              throwE (SimulatorError
                        ''Invalid app bundle: must be .app directory or .ipa file''
                        INVALID_ARGUMENTS None) w
            else returnE () w)
         else returnE () w)"

definition install :: "string \<Rightarrow> string option \<Rightarrow> unit action" where
  "install appPath device =
     bindE (getDeviceId device) (\<lambda>deviceId w0.
       (let absolutePath = absolutePathOf w0 appPath
        in bindE (effect (startSpinner (''Installing app from: '' @ appPath @ ''...''))) (\<lambda>u.
           catchE
             (bindE (\<lambda>w. if \<not> accessOk w absolutePath
                          then throwE (notFoundError absolutePath) w
                          else returnE () w) (\<lambda>u.
              bindE (checkBundle absolutePath) (\<lambda>u.
              bindE (run ''xcrun'' [''simctl'', ''install'', deviceId, absolutePath] None) (\<lambda>r.
                if stderr r \<noteq> [] \<and> \<not> includesStr (stderr r) ''successfully''
                then throwE (SimulatorError (''Installation failed: '' @ stderr r)
                               GENERAL_ERROR None)
                else
                  bindE (effect (success
                           (''App installed successfully from: '' @ appPath))) (\<lambda>u.
                  whenJson (JObj [(''success'', JBool True), (''path'', JStr absolutePath),
                                  (''device'', JStr deviceId)]))))))
             failSpinner)) w0)"

text \<open>
  \<^verbatim>\<open>uninstall\<close>. Its \<^verbatim>\<open>catch\<close> block replaces a failure whose message mentions a missing file
  by an "App not found" error.
\<close>

definition uninstall :: "string \<Rightarrow> string option \<Rightarrow> unit action" where
  "uninstall bundleId device =
     bindE (liftE (bundleIdSchema bundleId)) (\<lambda>validatedBundleId.
     bindE (getDeviceId device) (\<lambda>deviceId.
     bindE (effect (startSpinner (''Uninstalling app: '' @ bundleId @ ''...''))) (\<lambda>u.
     catchE
       (bindE (run ''xcrun'' [''simctl'', ''uninstall'', deviceId, validatedBundleId] None) (\<lambda>r.
          if stderr r \<noteq> [] \<and> \<not> includesStr (stderr r) ''successfully''
          then throwE (SimulatorError (''Uninstall failed: '' @ stderr r) GENERAL_ERROR None)
          else
            bindE (effect (success (''App '' @ bundleId @ '' uninstalled successfully''))) (\<lambda>u.
            whenJson (JObj [(''success'', JBool True), (''bundleId'', JStr bundleId),
                            (''device'', JStr deviceId)]))))
       (\<lambda>error.
          bindE (effect (stopSpinner False)) (\<lambda>u.
          case errorMessage error of
            None \<Rightarrow> throwE error
          | Some m \<Rightarrow>
              if includesStr m ''No such file or directory''
              then throwE (SimulatorError (''App not found: '' @ bundleId) GENERAL_ERROR
                             (Some [''Check the bundle ID is correct'',
                                    ''List installed apps: sim-cli app-list'']))
              else throwE error)))))"

section \<open>Video recording (commands/media)\<close>

text \<open>
  The listener on the child's error stream: a chunk that contains the confirmation sets
  the flag, any other chunk is appended to the captured text.
\<close>

fun onData :: "bool \<times> string \<Rightarrow> string \<Rightarrow> bool \<times> string" where
  "onData (recordingStarted, errorOutput) chunk =
     (if includesStr chunk ''Recording started'' then (True, errorOutput)
      else (recordingStarted, errorOutput @ chunk))"

text \<open>
  The wait for the confirmation. The 100 ms poll resolves as soon as the flag is set; the
  3000 ms timer, when the flag is still unset, rejects if the handle's \<^verbatim>\<open>killed\<close> property is
  set and resolves otherwise. \<open>stderrChunks\<close> are the chunks of that window, so the flag and
  the captured text at the timer are the fold of the listener over them.
\<close>

definition waitForStart :: "ChildProcess \<Rightarrow> unit action" where
  "waitForStart child =
     (case foldl onData (False, []) (stderrChunks child) of
        (recordingStarted, errorOutput) \<Rightarrow>
          if recordingStarted then returnE ()
          else if killed child then
            throwE (SimulatorError
                      (''Recording process terminated unexpectedly: '' @ errorOutput)
                      GENERAL_ERROR None)
          else returnE ())"

definition recordArgs ::
  "string \<Rightarrow> string option \<Rightarrow> string option \<Rightarrow> string option \<Rightarrow> bool \<Rightarrow> string \<Rightarrow> string list"
where
  "recordArgs deviceId codec display maskPolicy force outputPath =
     [''simctl'', ''io'', deviceId, ''recordVideo''] @
     (case whenTruthy codec of None \<Rightarrow> [] | Some c \<Rightarrow> [''--codec='' @ c]) @
     (case whenTruthy display of None \<Rightarrow> [] | Some d \<Rightarrow> [''--display='' @ d]) @
     (case whenTruthy maskPolicy of None \<Rightarrow> [] | Some m \<Rightarrow> [''--mask='' @ m]) @
     (if force then [''--force''] else []) @
     [''--'', outputPath]"

definition storeSession :: "string \<Rightarrow> nat \<Rightarrow> world \<Rightarrow> world" where
  "storeSession outputPath p w =
     w\<lparr>env := (env w)(''SIM_CLI_RECORDING_PATH'' \<mapsto> outputPath,
                       ''SIM_CLI_RECORDING_PID'' \<mapsto> showNat p)\<rparr>"

definition clearSession :: "world \<Rightarrow> world" where
  "clearSession w =
     w\<lparr>env := (env w)(''SIM_CLI_RECORDING_PATH'' := None, ''SIM_CLI_RECORDING_PID'' := None)\<rparr>"

text \<open>The output path of a capture: the given path, or a timestamped name, resolved.\<close>

definition recordingPathOf :: "world \<Rightarrow> string option \<Rightarrow> string" where
  "recordingPathOf w path =
     resolveFilePath w
       (case whenTruthy path of
          Some p \<Rightarrow> p
        | None \<Rightarrow> generateTimestampedFilename w ''recording'' ''mp4'')"

text \<open>\<^verbatim>\<open>record\<close> of the source (the name is reserved here).\<close>

definition record_start ::
  "string option \<Rightarrow> string option \<Rightarrow> string option \<Rightarrow> string option \<Rightarrow> bool \<Rightarrow>
   string option \<Rightarrow> unit action"
where
  "record_start path codec display maskPolicy force device =
     bindE (getDeviceId device) (\<lambda>deviceId w0.
       (let outputPath = recordingPathOf w0 path
        in if accessOk w0 outputPath \<and> \<not> force then
             throwE (SimulatorError (''File already exists: '' @ outputPath) GENERAL_ERROR
                       (Some [''Use --force to overwrite the existing file''])) w0
           else
             bindE (effect (startSpinner ''Starting video recording...'')) (\<lambda>u.
             catchE
               (\<lambda>w. case runBackground ''xcrun''
                              (recordArgs deviceId codec display maskPolicy force outputPath) w of
                       (recordingProcess, w') \<Rightarrow>
                         bindE (waitForStart recordingProcess) (\<lambda>u.
                         bindE (effect (success
                                  (''Recording started. Video will be saved to: '' @
                                   outputPath))) (\<lambda>u.
                         bindE (effect (info
                                  (''Run '' @ [CHR 0x22] @ ''sim-cli record-stop'' @
                                   [CHR 0x22] @ '' to stop recording''))) (\<lambda>u.
                         bindE (effect (storeSession outputPath (pid recordingProcess))) (\<lambda>u.
                         whenJson (JObj [(''success'', JBool True), (''recording'', JBool True),
                                         (''path'', JStr outputPath),
                                         (''pid'', JNum (int (pid recordingProcess))),
                                         (''device'', JStr deviceId)]))))) w')
               failSpinner) w0))"

text \<open>
  \<^verbatim>\<open>recordStop\<close>. The one-second pause between the kill and the look at the file changes
  nothing the model keeps.
\<close>

definition isNoMatching :: "thrown \<Rightarrow> bool" where
  "isNoMatching error =
     (case errorMessage error of
        None \<Rightarrow> False
      | Some m \<Rightarrow> includesStr m ''No matching processes'')"

definition reportStopped :: "unit action" where
  "reportStopped w =
     (case whenTruthy (env w ''SIM_CLI_RECORDING_PATH'') of
        None \<Rightarrow>
          bindE (effect (success ''Recording stopped'')) (\<lambda>u.
          whenJson (JObj [(''success'', JBool True), (''recording'', JBool False)])) w
      | Some recordingPath \<Rightarrow>
          if accessOk w recordingPath then
            bindE (effect (success
                     (''Recording stopped. Video saved to: '' @ recordingPath))) (\<lambda>u.
            whenJson (JObj [(''success'', JBool True), (''recording'', JBool False),
                            (''path'', JStr recordingPath)])) w
          else
            bindE (effect (success ''Recording stopped'')) (\<lambda>u.
            whenJson (JObj [(''success'', JBool True), (''recording'', JBool False)])) w)"

definition recordStop :: "unit action" where
  "recordStop =
     bindE (effect (startSpinner ''Stopping video recording...'')) (\<lambda>u.
     catchE
       (bindE (killProcess ''simctl.*recordVideo'') (\<lambda>u.
        bindE reportStopped (\<lambda>u.
        effect clearSession)))
       (\<lambda>error.
          bindE (effect (stopSpinner False)) (\<lambda>u.
          if isNoMatching error then
            bindE (effect (warn ''No active recording found'')) (\<lambda>u.
            whenJson (JObj [(''success'', JBool False),
                            (''message'', JStr ''No active recording found'')]))
          else throwE error)))"

section \<open>Example worlds\<close>

text \<open>
  Concrete surroundings on which the theorems below are run. In \<open>idleWorld\<close> every blocking
  call succeeds with empty streams, no file exists, no environment variable is set and
  the device listing cannot be parsed. The other worlds change one thing each.
\<close>

definition exampleUdid :: string where
  "exampleUdid = ''37A360EC-75F9-4AEC-8EFA-10F4A58D8CCA''"

definition idleWorld :: world where
  "idleWorld =
     \<lparr>execFile = (\<lambda>call. Inr \<lparr>stdout = [], stderr = []\<rparr>),
      spawnChild = (\<lambda>call. \<lparr>pid = 4242, stderrChunks = [], exited = False, killed = False\<rparr>),
      parseDevices = (\<lambda>text. None),
      accessOk = (\<lambda>p. False),
      statIsDirectory = (\<lambda>p. False),
      pathResolve = (\<lambda>p. ''/work/'' @ p),
      resolveFilePath = (\<lambda>p. if isAbsolute p then p else ''/Users/me/Downloads/'' @ p),
      generateTimestampedFilename = (\<lambda>prefix ext. prefix @ ''_2026-01-01_00-00-00-000.'' @ ext),
      env = Map.empty,
      level = INFO,
      spinner = False,
      console = [],
      spawned = []\<rparr>"

text \<open>The device override (\<^verbatim>\<open>-d\<close>, stored in SIM_CLI_DEVICE) names a device.\<close>

definition envWorld :: world where
  "envWorld = idleWorld\<lparr>env := [''SIM_CLI_DEVICE'' \<mapsto> exampleUdid]\<rparr>"

text \<open>The listing holds one device, in the given state.\<close>

definition listedDevice :: "string \<Rightarrow> DeviceJson" where
  "listedDevice st =
     \<lparr>dj_name = ''iPhone 15'', dj_udid = exampleUdid, dj_state = st,
      dj_isAvailable = Some True,
      dj_deviceTypeIdentifier = ''com.apple.CoreSimulator.SimDeviceType.iPhone-15''\<rparr>"

definition listingWorld :: "string \<Rightarrow> world" where
  "listingWorld st =
     idleWorld\<lparr>parseDevices :=
       (\<lambda>text. Some [(''com.apple.CoreSimulator.SimRuntime.iOS-17-0'', [listedDevice st])])\<rparr>"

text \<open>One file exists and is not a directory.\<close>

definition fileWorld :: "string \<Rightarrow> world" where
  "fileWorld p = envWorld\<lparr>accessOk := (\<lambda>q. q = p)\<rparr>"

text \<open>
  No process matches the pattern: \<^verbatim>\<open>pkill\<close> exits with status 1, which the runtime reports
  as an \<^verbatim>\<open>Error\<close> whose \<^verbatim>\<open>code\<close> is the number 1.
\<close>

definition noMatchWorld :: world where
  "noMatchWorld =
     idleWorld\<lparr>execFile := (\<lambda>call.
       if fst call = ''pkill''
       then Inl (''Command failed: pkill -SIGINT -f simctl.*recordVideo'', NumCode 1)
       else Inr \<lparr>stdout = [], stderr = []\<rparr>)\<rparr>"

definition jsonMode :: "world \<Rightarrow> world" where
  "jsonMode w = w\<lparr>env := (env w)(''SIM_CLI_FORMAT'' \<mapsto> ''json'')\<rparr>"

text \<open>
  The recording child prints an error and exits by itself within the three seconds; the
  parent never signalled it, so its \<^verbatim>\<open>killed\<close> property is unset.
\<close>

definition crashWorld :: world where
  "crashWorld =
     envWorld\<lparr>spawnChild := (\<lambda>call.
       \<lparr>pid = 4242, stderrChunks = [''Invalid device: '' @ exampleUdid], exited = True,
        killed = False\<rparr>)\<rparr>"

section \<open>Properties\<close>

subsection \<open>Substring search\<close>

lemma startsWith_prefix: "startsWith s p = prefix p s"
  by (induction s p rule: startsWith.induct) auto

lemma includesStr_sublist: "includesStr s p = sublist p s"
  by (induction s) (simp_all add: startsWith_prefix sublist_Cons_right)

lemma includesStr_longer_pattern: "includesStr s (a @ b) \<Longrightarrow> includesStr s b"
proof -
  assume "includesStr s (a @ b)"
  then obtain ps ss where "s = ps @ (a @ b) @ ss"
    by (auto simp: includesStr_sublist sublist_def)
  then have "s = (ps @ a) @ b @ ss" by simp
  then show ?thesis
    unfolding includesStr_sublist sublist_def by blast
qed

subsection \<open>Error classification\<close>

text \<open>
  Every message that contains \<^verbatim>\<open>command not found\<close> contains \<^verbatim>\<open>not found\<close>, which the chain
  tests first: no message of a plain \<^verbatim>\<open>Error\<close> is ever classified as COMMAND_NOT_FOUND.
\<close>

lemma detect_never_command_not_found: "exitCode (detect msg) \<noteq> COMMAND_NOT_FOUND"
proof -
  have "includesStr msg ''command not found'' \<Longrightarrow> includesStr msg ''not found''"
    using includesStr_longer_pattern [of msg "''command ''" "''not found''"] by simp
  then show ?thesis
    by (auto simp: detect_def)
qed

text \<open>
  C2. The claim maps a message containing \<^verbatim>\<open>command not found\<close> to CommandNotFound (127).
  The reporter classifies the message of a shell that cannot find \<^verbatim>\<open>idb\<close> as FileNotFound,
  exit code 6, with no suggestions: the test for \<^verbatim>\<open>not found\<close> comes first in the chain.
\<close>

theorem handleError_command_not_found:
  "handleError (Error ''/bin/sh: idb: command not found'' NoCode) =
     Report FILE_NOT_FOUND ''/bin/sh: idb: command not found'' [] \<and>
   ErrorCode_value FILE_NOT_FOUND = 6"
  by (simp add: detect_def)

subsection \<open>Typed text\<close>

text \<open>
  C7, as stated: every string of at most 500 code units, all in 0x20 to 0x7E, is accepted
  unchanged. The empty string is such a string and is rejected, since the pattern asks
  for at least one code unit.
\<close>

theorem textInputSchema_empty_counterexample:
  "list_all printable [] \<and> length ([] :: js_text) \<le> 500 \<and>
   textInputSchema [] =
     Inl (ZodError [ZodIssue [] ''Text must contain only ASCII printable characters''])"
  by (simp add: textInputSchema_def textInputIssues_def matchesPrintablePlus_def)

text \<open>
  C7, amended: validation of typed text succeeds and returns the string unchanged when
  the string is not empty, every code unit lies in 0x20 to 0x7E and there are at most 500
  of them; it fails, with at least one issue, for the empty string, for every string with
  a code unit outside 0x20 to 0x7E and for every string longer than 500 code units.
\<close>

theorem textInputSchema_nonempty_printable:
  "(s \<noteq> [] \<and> (\<forall>c \<in> set s. 0x20 \<le> c \<and> c \<le> 0x7E) \<and> length s \<le> 500
      \<longrightarrow> textInputSchema s = Inr s) \<and>
   (s = [] \<or> (\<exists>c \<in> set s. c < 0x20 \<or> 0x7E < c) \<or> 500 < length s
      \<longrightarrow> (\<exists>issues. issues \<noteq> [] \<and> textInputSchema s = Inl (ZodError issues)))"
  by (auto simp: textInputSchema_def textInputIssues_def matchesPrintablePlus_def
        printable_def list_all_iff not_le)

theorem textInputSchema_nonempty_printable_witness:
  "textInputSchema [0x48, 0x69] = Inr [0x48, 0x69] \<and>
   (\<exists>issues. issues \<noteq> [] \<and> textInputSchema [0x4E16] = Inl (ZodError issues)) \<and>
   (\<exists>issues. issues \<noteq> [] \<and> textInputSchema (replicate 501 0x61) = Inl (ZodError issues)) \<and>
   (\<exists>issues. issues \<noteq> [] \<and> textInputSchema [] = Inl (ZodError issues))"
  using textInputSchema_nonempty_printable [of "[0x48, 0x69]"]
    textInputSchema_nonempty_printable [of "[0x4E16]"]
    textInputSchema_nonempty_printable [of "replicate 501 0x61"]
    textInputSchema_nonempty_printable [of "[]"]
  by simp

subsection \<open>Sequencing and what the logger leaves alone\<close>

lemma bindE_returnE: "bindE (returnE a) f = f a"
  by (rule ext) (simp add: bindE_def returnE_def)

lemma bindE_guard:
  "bindE (\<lambda>v. if c v then throwE e v else returnE a v) f w =
     (if c w then (Inl e, w) else f a w)"
  by (simp add: bindE_def throwE_def returnE_def)

lemma effect_bind: "bindE (effect g) f w = f () (g w)"
  by (simp add: bindE_def effect_def)

lemma failSpinner_eq: "failSpinner e w = (Inl e, stopSpinner False w)"
  by (simp add: failSpinner_def bindE_def effect_def throwE_def)

lemma whenJson_eq: "whenJson j w = (Inr (), logJson j w)"
  by (simp add: whenJson_def effect_def returnE_def logJson_def)

lemma snd_run: "snd (run c a t w) = logSpawn (c, a) w"
  by (simp add: run_def Let_def split: sum.splits prod.splits)

lemma fst_run_cong: "execFile w1 = execFile w2 \<Longrightarrow> fst (run c a t w1) = fst (run c a t w2)"
  by (simp add: run_def Let_def split: sum.splits prod.splits)

lemma spawned_logSpawn: "spawned (logSpawn c w) = spawned w @ [c]"
  by (simp add: logSpawn_def)

lemma spawned_startSpinner: "spawned (startSpinner m w) = spawned w"
  by (simp add: startSpinner_def emit_def)

lemma execFile_startSpinner: "execFile (startSpinner m w) = execFile w"
  by (simp add: startSpinner_def emit_def)

lemma spawnChild_startSpinner: "spawnChild (startSpinner m w) = spawnChild w"
  by (simp add: startSpinner_def emit_def)

lemma accessOk_startSpinner: "accessOk (startSpinner m w) = accessOk w"
  by (simp add: startSpinner_def emit_def)

lemma spawned_stopSpinner: "spawned (stopSpinner b w) = spawned w"
  by (simp add: stopSpinner_def emit_def)

lemma spawned_success: "spawned (success m w) = spawned w"
  by (simp add: success_def emit_def)

lemma spawned_logJson: "spawned (logJson j w) = spawned w"
  by (simp add: logJson_def emit_def)

lemma spawned_effect: "spawned (snd (effect g w)) = spawned (g w)"
  by (simp add: effect_def)

lemma spawned_throwE: "spawned (snd (throwE e w)) = spawned w"
  by (simp add: throwE_def)

lemma fst_effect: "fst (effect g w) = Inr ()"
  by (simp add: effect_def)

text \<open>A handler that spawns nothing leaves the log of the body; so does a continuation.\<close>

lemma spawned_catch_quiet:
  "(\<And>e v. spawned (snd (h e v)) = spawned v) \<Longrightarrow>
   spawned (snd (catchE m h w)) = spawned (snd (m w))"
  by (cases "m w"; cases "fst (m w)") (auto simp: catchE_def)

lemma spawned_catch_fail: "spawned (snd (catchE m failSpinner w)) = spawned (snd (m w))"
  by (rule spawned_catch_quiet) (simp add: failSpinner_eq spawned_stopSpinner)

lemma fst_catch_fail: "fst (catchE m failSpinner w) = fst (m w)"
  by (cases "m w"; cases "fst (m w)") (auto simp: catchE_def failSpinner_eq)

lemma spawned_bind_quiet:
  "(\<And>a v. spawned (snd (f a v)) = spawned v) \<Longrightarrow>
   spawned (snd (bindE m f w)) = spawned (snd (m w))"
  by (cases "m w"; cases "fst (m w)") (auto simp: bindE_def)

lemma fst_bind_unit:
  "(\<And>a v. fst (f a v) = Inr ()) \<Longrightarrow>
   fst (bindE m f w) = (case fst (m w) of Inl e \<Rightarrow> Inl e | Inr a \<Rightarrow> Inr ())"
  by (cases "m w"; cases "fst (m w)") (auto simp: bindE_def)

lemmas quiet_simps =
  spawned_catch_fail spawned_bind_quiet spawned_effect spawned_success whenJson_eq
  spawned_logJson snd_run spawned_logSpawn spawned_startSpinner spawned_throwE

lemmas outcome_simps =
  fst_catch_fail fst_bind_unit fst_effect whenJson_eq

subsection \<open>Device resolution\<close>

lemma udid_nonempty: "udidSchema_success p \<Longrightarrow> p \<noteq> []"
  by (auto simp: udidSchema_success_def UDID_REGEX_test_def eval_nat_numeral)

lemma exampleUdid_ok: "udidSchema_success exampleUdid"
  by (simp add: udidSchema_success_def UDID_REGEX_test_def exampleUdid_def isHexDigit_def
        eval_nat_numeral)

lemma getDeviceId_explicit: "udidSchema_success p \<Longrightarrow> getDeviceId (Some p) w = (Inr p, w)"
  using udid_nonempty [of p] by (simp add: getDeviceId_def returnE_def)

lemma findBooted_None:
  "(findBooted rt ds = None) = list_all (\<lambda>d. dj_state d \<noteq> ''Booted'') ds"
  by (induction ds) simp_all

lemma searchRuntimes_None:
  "(searchRuntimes devices = None) =
     list_all (\<lambda>(rt, ds). list_all (\<lambda>d. dj_state d \<noteq> ''Booted'') ds) devices"
proof (induction devices)
  case Nil
  show ?case by simp
next
  case (Cons a devices)
  obtain rt ds where a: "a = (rt, ds)" by (cases a)
  show ?case
  proof (cases "findBooted rt ds")
    case None
    then show ?thesis
      using Cons findBooted_None [of rt ds] by (simp add: a)
  next
    case (Some d)
    then have "\<not> list_all (\<lambda>d. dj_state d \<noteq> ''Booted'') ds"
      using findBooted_None [of rt ds] by simp
    then show ?thesis
      by (simp add: a Some)
  qed
qed

text \<open>Resolution changes nothing of the world but the log, and that by one query at most.\<close>

lemma getBootedDevice_world:
  "snd (getBootedDevice w) = logSpawn (''xcrun'', listDevicesArgs) w"
  by (simp add: getBootedDevice_def bindE_def run_def throwE_def returnE_def
      split: sum.splits prod.splits option.splits)

lemma getDeviceId_frame:
  "getDeviceId device w = (r, w') \<Longrightarrow>
   w' = w \<or> w' = logSpawn (''xcrun'', listDevicesArgs) w"
proof -
  assume a: "getDeviceId device w = (r, w')"
  have "snd (bindE getBootedDevice (\<lambda>d. returnE (udid d)) w) =
          logSpawn (''xcrun'', listDevicesArgs) w"
    using getBootedDevice_world [of w]
    by (cases "getBootedDevice w"; cases "fst (getBootedDevice w)")
       (auto simp: bindE_def returnE_def)
  with a show ?thesis
    by (auto simp: getDeviceId_def returnE_def throwE_def split: option.splits if_splits)
qed

lemma getDeviceId_keeps:
  "getDeviceId device w = (r, w') \<Longrightarrow>
   accessOk w' = accessOk w \<and> pathResolve w' = pathResolve w \<and>
   statIsDirectory w' = statIsDirectory w \<and> execFile w' = execFile w"
  using getDeviceId_frame [of device w r w'] by (auto simp: logSpawn_def)

text \<open>Resolution in the example worlds.\<close>

lemma getDeviceId_envWorld: "getDeviceId None envWorld = (Inr exampleUdid, envWorld)"
proof -
  have "env envWorld ''SIM_CLI_DEVICE'' = Some exampleUdid"
    by (simp add: envWorld_def idleWorld_def)
  then show ?thesis
    using udid_nonempty [OF exampleUdid_ok]
    by (simp add: getDeviceId_def exampleUdid_ok returnE_def)
qed

lemma getDeviceId_fileWorld: "getDeviceId None (fileWorld p) = (Inr exampleUdid, fileWorld p)"
proof -
  have "env (fileWorld p) ''SIM_CLI_DEVICE'' = Some exampleUdid"
    by (simp add: fileWorld_def envWorld_def idleWorld_def)
  then show ?thesis
    using udid_nonempty [OF exampleUdid_ok]
    by (simp add: getDeviceId_def exampleUdid_ok returnE_def)
qed

lemma getDeviceId_crashWorld: "getDeviceId None crashWorld = (Inr exampleUdid, crashWorld)"
proof -
  have "env crashWorld ''SIM_CLI_DEVICE'' = Some exampleUdid"
    by (simp add: crashWorld_def envWorld_def idleWorld_def)
  then show ?thesis
    using udid_nonempty [OF exampleUdid_ok]
    by (simp add: getDeviceId_def exampleUdid_ok returnE_def)
qed

lemma getBootedDevice_listing_Booted:
  "getBootedDevice (listingWorld ''Booted'') =
     (Inr \<lparr>name = ''iPhone 15'', udid = exampleUdid, state = ''Booted'', isAvailable = True,
           deviceTypeIdentifier = ''com.apple.CoreSimulator.SimDeviceType.iPhone-15'',
           runtimeIdentifier = ''com.apple.CoreSimulator.SimRuntime.iOS-17-0''\<rparr>,
      logSpawn (''xcrun'', listDevicesArgs) (listingWorld ''Booted''))"
  by (simp add: getBootedDevice_def bindE_def run_def listingWorld_def idleWorld_def trim_def
        logSpawn_def returnE_def listedDevice_def)

lemma getDeviceId_listing_Booted:
  "getDeviceId None (listingWorld ''Booted'') =
     (Inr exampleUdid, logSpawn (''xcrun'', listDevicesArgs) (listingWorld ''Booted''))"
proof -
  have "env (listingWorld ''Booted'') ''SIM_CLI_DEVICE'' = None"
    by (simp add: listingWorld_def idleWorld_def)
  then show ?thesis
    by (simp add: getDeviceId_def bindE_def getBootedDevice_listing_Booted returnE_def)
qed

lemma getDeviceId_listing_Shutdown:
  "getDeviceId None (listingWorld ''Shutdown'') =
     (Inl noBootedError, logSpawn (''xcrun'', listDevicesArgs) (listingWorld ''Shutdown''))"
proof -
  have "env (listingWorld ''Shutdown'') ''SIM_CLI_DEVICE'' = None"
    by (simp add: listingWorld_def idleWorld_def)
  moreover have "getBootedDevice (listingWorld ''Shutdown'') =
     (Inl noBootedError, logSpawn (''xcrun'', listDevicesArgs) (listingWorld ''Shutdown''))"
    by (simp add: getBootedDevice_def bindE_def run_def listingWorld_def idleWorld_def trim_def
          logSpawn_def throwE_def listedDevice_def)
  ultimately show ?thesis
    by (simp add: getDeviceId_def bindE_def)
qed

text \<open>
  C5. Device resolution follows a fixed order. A format-valid explicit UDID is returned as
  it is and the world is unchanged (no query; resolving twice gives the same identifier
  twice, still with no query). With no explicit argument (absent or empty) the default of
  SIM_CLI_DEVICE is used, validated by the same schema: returned when valid, and an
  invalid value fails with INVALID_ARGUMENTS just as an invalid explicit argument does.
  With neither, the device list is queried, and when the listing has no device in state
  Booted the resolution fails with SimulatorNotFound, exit code 3, carrying the three
  hints.
\<close>

theorem getDeviceId_order:
  "(udidSchema_success p
      \<longrightarrow> getDeviceId (Some p) w = (Inr p, w) \<and>
          bindE (getDeviceId (Some p))
            (\<lambda>a. bindE (getDeviceId (Some p)) (\<lambda>b. returnE (a, b))) w = (Inr (p, p), w)) \<and>
   (whenTruthy provided = None \<and> env w ''SIM_CLI_DEVICE'' = Some e \<and> udidSchema_success e
      \<longrightarrow> getDeviceId provided w = (Inr e, w)) \<and>
   (p \<noteq> [] \<and> \<not> udidSchema_success p
      \<longrightarrow> (\<exists>m s. getDeviceId (Some p) w = (Inl (SimulatorError m INVALID_ARGUMENTS s), w))) \<and>
   (whenTruthy provided = None \<and> env w ''SIM_CLI_DEVICE'' = Some e \<and> e \<noteq> [] \<and>
    \<not> udidSchema_success e
      \<longrightarrow> (\<exists>m s. getDeviceId provided w = (Inl (SimulatorError m INVALID_ARGUMENTS s), w))) \<and>
   (whenTruthy provided = None \<and> whenTruthy (env w ''SIM_CLI_DEVICE'') = None \<and>
    execFile w (''xcrun'', [''simctl'', ''list'', ''devices'', ''--json'']) = Inr r \<and>
    trim (stderr r) = [] \<and> parseDevices w (trim (stdout r)) = Some devices \<and>
    (\<forall>(runtime, ds) \<in> set devices. \<forall>d \<in> set ds. dj_state d \<noteq> ''Booted'')
      \<longrightarrow> getDeviceId provided w =
            (Inl (SimulatorError ''No simulator is currently booted'' SIMULATOR_NOT_FOUND
                    (Some [''Open Simulator.app'', ''Run: sim-cli open'',
                           ''Specify a device with --device <udid>''])),
             w\<lparr>spawned := spawned w @
                  [(''xcrun'', [''simctl'', ''list'', ''devices'', ''--json''])]\<rparr>) \<and>
          ErrorCode_value SIMULATOR_NOT_FOUND = 3)"
proof -
  have c1: "udidSchema_success p
      \<longrightarrow> getDeviceId (Some p) w = (Inr p, w) \<and>
          bindE (getDeviceId (Some p))
            (\<lambda>a. bindE (getDeviceId (Some p)) (\<lambda>b. returnE (a, b))) w = (Inr (p, p), w)"
    by (simp add: bindE_def getDeviceId_explicit returnE_def)
  have c2: "whenTruthy provided = None \<and> env w ''SIM_CLI_DEVICE'' = Some e \<and>
      udidSchema_success e
      \<longrightarrow> getDeviceId provided w = (Inr e, w)"
    using udid_nonempty [of e] by (simp add: getDeviceId_def returnE_def)
  have c3: "p \<noteq> [] \<and> \<not> udidSchema_success p
      \<longrightarrow> (\<exists>m s. getDeviceId (Some p) w = (Inl (SimulatorError m INVALID_ARGUMENTS s), w))"
    by (simp add: getDeviceId_def throwE_def)
  have c4: "whenTruthy provided = None \<and> env w ''SIM_CLI_DEVICE'' = Some e \<and> e \<noteq> [] \<and>
    \<not> udidSchema_success e
      \<longrightarrow> (\<exists>m s. getDeviceId provided w = (Inl (SimulatorError m INVALID_ARGUMENTS s), w))"
    by (simp add: getDeviceId_def throwE_def)
  have c5: "whenTruthy provided = None \<and> whenTruthy (env w ''SIM_CLI_DEVICE'') = None \<and>
    execFile w (''xcrun'', [''simctl'', ''list'', ''devices'', ''--json'']) = Inr r \<and>
    trim (stderr r) = [] \<and> parseDevices w (trim (stdout r)) = Some devices \<and>
    (\<forall>(runtime, ds) \<in> set devices. \<forall>d \<in> set ds. dj_state d \<noteq> ''Booted'')
      \<longrightarrow> getDeviceId provided w =
            (Inl (SimulatorError ''No simulator is currently booted'' SIMULATOR_NOT_FOUND
                    (Some [''Open Simulator.app'', ''Run: sim-cli open'',
                           ''Specify a device with --device <udid>''])),
             w\<lparr>spawned := spawned w @
                  [(''xcrun'', [''simctl'', ''list'', ''devices'', ''--json''])]\<rparr>) \<and>
          ErrorCode_value SIMULATOR_NOT_FOUND = 3"
  proof
    assume a: "whenTruthy provided = None \<and> whenTruthy (env w ''SIM_CLI_DEVICE'') = None \<and>
      execFile w (''xcrun'', [''simctl'', ''list'', ''devices'', ''--json'']) = Inr r \<and>
      trim (stderr r) = [] \<and> parseDevices w (trim (stdout r)) = Some devices \<and>
      (\<forall>(runtime, ds) \<in> set devices. \<forall>d \<in> set ds. dj_state d \<noteq> ''Booted'')"
    then have "searchRuntimes devices = None"
      by (auto simp: searchRuntimes_None list_all_iff)
    with a show "getDeviceId provided w =
            (Inl (SimulatorError ''No simulator is currently booted'' SIMULATOR_NOT_FOUND
                    (Some [''Open Simulator.app'', ''Run: sim-cli open'',
                           ''Specify a device with --device <udid>''])),
             w\<lparr>spawned := spawned w @
                  [(''xcrun'', [''simctl'', ''list'', ''devices'', ''--json''])]\<rparr>) \<and>
          ErrorCode_value SIMULATOR_NOT_FOUND = 3"
      by (simp add: getDeviceId_def getBootedDevice_def bindE_def run_def listDevicesArgs_def
            logSpawn_def throwE_def noBootedError_def)
  qed
  show ?thesis
    by (intro conjI) (fact c1, fact c2, fact c3, fact c4, fact c5)
qed

theorem getDeviceId_order_witness:
  "getDeviceId (Some exampleUdid) idleWorld = (Inr exampleUdid, idleWorld) \<and>
   getDeviceId None envWorld = (Inr exampleUdid, envWorld) \<and>
   (\<exists>m s. getDeviceId (Some ''booted'') idleWorld =
            (Inl (SimulatorError m INVALID_ARGUMENTS s), idleWorld)) \<and>
   (\<exists>m s. getDeviceId None (idleWorld\<lparr>env := [''SIM_CLI_DEVICE'' \<mapsto> ''booted'']\<rparr>) =
            (Inl (SimulatorError m INVALID_ARGUMENTS s),
             idleWorld\<lparr>env := [''SIM_CLI_DEVICE'' \<mapsto> ''booted'']\<rparr>)) \<and>
   getDeviceId None (listingWorld ''Shutdown'') =
     (Inl (SimulatorError ''No simulator is currently booted'' SIMULATOR_NOT_FOUND
             (Some [''Open Simulator.app'', ''Run: sim-cli open'',
                    ''Specify a device with --device <udid>''])),
      (listingWorld ''Shutdown'')\<lparr>spawned :=
         [(''xcrun'', [''simctl'', ''list'', ''devices'', ''--json''])]\<rparr>)"
proof -
  have bad: "\<not> udidSchema_success ''booted''"
    by (simp add: udidSchema_success_def UDID_REGEX_test_def isHexDigit_def eval_nat_numeral)
  have e1: "env envWorld ''SIM_CLI_DEVICE'' = Some exampleUdid"
    by (simp add: envWorld_def idleWorld_def)
  have e2: "env (idleWorld\<lparr>env := [''SIM_CLI_DEVICE'' \<mapsto> ''booted'']\<rparr>) ''SIM_CLI_DEVICE'' =
              Some ''booted''"
    by simp
  have l: "whenTruthy (env (listingWorld ''Shutdown'') ''SIM_CLI_DEVICE'') = None \<and>
    execFile (listingWorld ''Shutdown'')
      (''xcrun'', [''simctl'', ''list'', ''devices'', ''--json'']) =
      Inr \<lparr>stdout = [], stderr = []\<rparr> \<and>
    parseDevices (listingWorld ''Shutdown'') [] =
      Some [(''com.apple.CoreSimulator.SimRuntime.iOS-17-0'', [listedDevice ''Shutdown''])] \<and>
    dj_state (listedDevice ''Shutdown'') \<noteq> ''Booted'' \<and>
    spawned (listingWorld ''Shutdown'') = []"
    by (simp add: listingWorld_def idleWorld_def listedDevice_def)
  show ?thesis
    using getDeviceId_order [of exampleUdid idleWorld None exampleUdid]
      getDeviceId_order [of _ envWorld None exampleUdid]
      getDeviceId_order [of "''booted''" idleWorld]
      getDeviceId_order [of _ "idleWorld\<lparr>env := [''SIM_CLI_DEVICE'' \<mapsto> ''booted'']\<rparr>" None
        "''booted''"]
      getDeviceId_order [of _ "listingWorld ''Shutdown''" None _ "\<lparr>stdout = [], stderr = []\<rparr>"
        "[(''com.apple.CoreSimulator.SimRuntime.iOS-17-0'', [listedDevice ''Shutdown''])]"]
      exampleUdid_ok bad e1 e2 l
    by (simp add: trim_def)
qed

subsection \<open>Tap\<close>

lemma String_of_100: "String_of 100 = ''100''"
  by (simp add: String_of_def showNat.simps)

lemma String_of_200: "String_of 200 = ''200''"
  by (simp add: String_of_def showNat.simps)

lemma tap_unfold_no_duration:
  "getDeviceId device w = (Inr D, w') \<Longrightarrow>
   tap x y None device w =
     catchE
       (bindE (returnE [''ui'', ''tap'', ''--udid'', D, ''--json'']) (\<lambda>args.
        bindE (run ''idb'' (args @ [''--'', String_of x, String_of y]) None) (\<lambda>r.
          if stderr r \<noteq> []
          then throwE (SimulatorError (''Tap failed: '' @ stderr r) GENERAL_ERROR None)
          else
            bindE (effect (success
                     (''Tapped at ('' @ String_of x @ '', '' @ String_of y @ '')''))) (\<lambda>u.
            whenJson (JObj [(''success'', JBool True), (''x'', JNum x), (''y'', JNum y),
                            (''device'', JStr D)])))))
       failSpinner
       (startSpinner (''Tapping at ('' @ String_of x @ '', '' @ String_of y @ '')...'') w')"
  by (simp add: tap_def bindE_def effect_def)

text \<open>
  C6. For every device identifier D that the resolution yields, tap at (100, 200) with no
  options hands exactly one invocation to the executor after the resolution: the binary
  \<^verbatim>\<open>idb\<close> with the vector ui, tap, --udid, D, --json, --, 100, 200, in that order.
\<close>

theorem tap_100_200_invocation:
  "getDeviceId None w = (Inr D, w') \<Longrightarrow>
   spawned (snd (tap 100 200 None None w)) =
     spawned w' @
     [(''idb'', [''ui'', ''tap'', ''--udid'', D, ''--json'', ''--'', ''100'', ''200''])]"
  by (simp add: tap_unfold_no_duration bindE_returnE quiet_simps String_of_100 String_of_200)

theorem tap_100_200_invocation_witness:
  "spawned (snd (tap 100 200 None None (listingWorld ''Booted''))) =
     [(''xcrun'', [''simctl'', ''list'', ''devices'', ''--json'']),
      (''idb'', [''ui'', ''tap'', ''--udid'', ''37A360EC-75F9-4AEC-8EFA-10F4A58D8CCA'',
                 ''--json'', ''--'', ''100'', ''200''])] \<and>
   spawned (snd (tap 100 200 None None envWorld)) =
     [(''idb'', [''ui'', ''tap'', ''--udid'', ''37A360EC-75F9-4AEC-8EFA-10F4A58D8CCA'',
                 ''--json'', ''--'', ''100'', ''200''])]"
  using tap_100_200_invocation [OF getDeviceId_listing_Booted]
    tap_100_200_invocation [OF getDeviceId_envWorld]
  by (simp add: logSpawn_def listingWorld_def envWorld_def idleWorld_def listDevicesArgs_def
        exampleUdid_def)

subsection \<open>Hardware buttons\<close>

lemma press_unfold:
  "hardwareButtonSchema (toLowerCase button) = Inr vb \<Longrightarrow>
   getDeviceId device w = (Inr D, w') \<Longrightarrow>
   press button device w =
     catchE
       (bindE
          (if includesStr vb ''+'' then
             (if ''home'' \<in> set (split vb CHR ''+'') \<and> ''lock'' \<in> set (split vb CHR ''+'')
              then
                bindE (run ''xcrun'' [''simctl'', ''io'', D, ''screenshot'', ''--type=png''] None)
                  (\<lambda>r. effect (success ''Screenshot gesture performed''))
              else throwE (SimulatorError (''Unsupported button combination: '' @ button)
                             INVALID_ARGUMENTS None))
           else
             (case map_of (buttonMap D) vb of
                None \<Rightarrow>
                  throwE (SimulatorError (''Unsupported button: '' @ button)
                            INVALID_ARGUMENTS None)
              | Some args \<Rightarrow>
                  bindE (run ''idb'' args None) (\<lambda>r.
                  effect (success (''Pressed '' @ button @ '' button'')))))
          (\<lambda>u. whenJson (JObj [(''success'', JBool True), (''button'', JStr vb),
                                (''device'', JStr D)])))
       failSpinner (startSpinner (''Pressing '' @ button @ '' button...'') w')"
  by (simp add: press_def bindE_def liftE_def effect_def)

lemma schema_power: "hardwareButtonSchema (toLowerCase ''power'') = Inr ''power''"
  by (simp add: hardwareButtonSchema_def hardwareButtons_def toLowerCase_def toLowerChar_def)

lemma schema_lock: "hardwareButtonSchema (toLowerCase ''lock'') = Inr ''lock''"
  by (simp add: hardwareButtonSchema_def hardwareButtons_def toLowerCase_def toLowerChar_def)

lemma press_power_spawned:
  "getDeviceId device w = (Inr D, w') \<Longrightarrow>
   spawned (snd (press ''power'' device w)) =
     spawned w' @ [(''idb'', [''ui'', ''button'', ''--udid'', D, ''--'', ''LOCK''])]"
  by (simp add: press_unfold [OF schema_power] buttonMap_def quiet_simps)

lemma press_lock_spawned:
  "getDeviceId device w = (Inr D, w') \<Longrightarrow>
   spawned (snd (press ''lock'' device w)) =
     spawned w' @ [(''idb'', [''ui'', ''button'', ''--udid'', D, ''--'', ''LOCK''])]"
  by (simp add: press_unfold [OF schema_lock] buttonMap_def quiet_simps)

lemma press_power_lock_fst:
  "getDeviceId device w = (Inr D, w') \<Longrightarrow>
   fst (press ''power'' device w) = fst (press ''lock'' device w)"
  by (simp add: press_unfold [OF schema_power] press_unfold [OF schema_lock] buttonMap_def
        outcome_simps
        fst_run_cong [of "startSpinner ''Pressing power button...'' w'"
                         "startSpinner ''Pressing lock button...'' w'"]
        execFile_startSpinner)

lemma press_home_lock_spawned:
  assumes low: "toLowerCase button = ''home+lock''"
    and dev: "getDeviceId device w = (Inr D, w')"
  shows "spawned (snd (press button device w)) =
           spawned w' @ [(''xcrun'', [''simctl'', ''io'', D, ''screenshot'', ''--type=png''])]"
proof -
  have v: "hardwareButtonSchema (toLowerCase button) = Inr ''home+lock''"
    by (simp add: low hardwareButtonSchema_def hardwareButtons_def)
  show ?thesis
    by (simp add: press_unfold [OF v dev] quiet_simps)
qed

lemma press_invalid:
  assumes "toLowerCase button \<notin> set hardwareButtons"
  shows "\<exists>issues. press button device w = (Inl (ZodError issues), w)"
  using assms by (simp add: press_def bindE_def liftE_def hardwareButtonSchema_def)

text \<open>
  C8. Press of a name whose lowercase form is \<^verbatim>\<open>home+lock\<close> hands, after the device is
  resolved to D, exactly one invocation to the executor: \<^verbatim>\<open>xcrun simctl io D screenshot\<close>, the
  screenshot action of the device-control utility, and none to the UI bridge. Press of a
  name whose lowercase form is outside the fixed set of seven fails with a validation
  error and leaves the world as it was: no process is spawned, nothing is printed.
\<close>

theorem press_home_lock_or_invalid:
  "(toLowerCase button = ''home+lock'' \<and> getDeviceId device w = (Inr D, w')
      \<longrightarrow> spawned (snd (press button device w)) =
            spawned w' @
            [(''xcrun'', [''simctl'', ''io'', D, ''screenshot'', ''--type=png''])]) \<and>
   (toLowerCase button \<notin> set [''home'', ''lock'', ''volume-up'', ''volume-down'', ''ringer'',
                                 ''power'', ''home+lock'']
      \<longrightarrow> (\<exists>issues. press button device w = (Inl (ZodError issues), w)))"
  using press_home_lock_spawned [of button device w D w'] press_invalid [of button device w]
  unfolding hardwareButtons_def by blast

theorem press_home_lock_or_invalid_witness:
  "spawned (snd (press ''Home+LOCK'' None envWorld)) =
     [(''xcrun'', [''simctl'', ''io'', ''37A360EC-75F9-4AEC-8EFA-10F4A58D8CCA'', ''screenshot'',
                   ''--type=png''])] \<and>
   (\<exists>issues. press ''back'' None envWorld = (Inl (ZodError issues), envWorld)) \<and>
   (\<exists>issues. press ''home+power'' None envWorld = (Inl (ZodError issues), envWorld))"
proof -
  have a: "toLowerCase ''Home+LOCK'' = ''home+lock''"
    by (simp add: toLowerCase_def toLowerChar_def)
  have b: "toLowerCase ''back'' = ''back''"
    by (simp add: toLowerCase_def toLowerChar_def)
  have c: "toLowerCase ''home+power'' = ''home+power''"
    by (simp add: toLowerCase_def toLowerChar_def)
  show ?thesis
    using press_home_lock_or_invalid [of "''Home+LOCK''" None envWorld exampleUdid envWorld]
      press_home_lock_or_invalid [of "''back''" None envWorld]
      press_home_lock_or_invalid [of "''home+power''" None envWorld]
      getDeviceId_envWorld
    by (simp add: a b c) (simp add: envWorld_def idleWorld_def exampleUdid_def)
qed

lemma getDeviceId_jsonEnvWorld:
  "getDeviceId None (jsonMode envWorld) = (Inr exampleUdid, jsonMode envWorld)"
proof -
  have "env (jsonMode envWorld) ''SIM_CLI_DEVICE'' = Some exampleUdid"
    by (simp add: jsonMode_def envWorld_def idleWorld_def)
  then show ?thesis
    using udid_nonempty [OF exampleUdid_ok]
    by (simp add: getDeviceId_def exampleUdid_ok returnE_def)
qed

text \<open>
  The world a press of a single button leaves, by the outcome of the UI bridge call.
\<close>

lemma press_single_world:
  assumes v: "hardwareButtonSchema (toLowerCase button) = Inr vb"
    and dev: "getDeviceId device w = (Inr D, w')"
    and plain: "\<not> includesStr vb ''+''"
    and args: "map_of (buttonMap D) vb = Some args"
  shows "snd (press button device w) =
     (case execFile w' (''idb'', args) of
        Inl e \<Rightarrow> stopSpinner False
                   (logSpawn (''idb'', args)
                      (startSpinner (''Pressing '' @ button @ '' button...'') w'))
      | Inr r \<Rightarrow> logJson (JObj [(''success'', JBool True), (''button'', JStr vb),
                                  (''device'', JStr D)])
                   (success (''Pressed '' @ button @ '' button'')
                      (logSpawn (''idb'', args)
                         (startSpinner (''Pressing '' @ button @ '' button...'') w'))))"
  by (simp add: press_unfold [OF v dev] plain args catchE_def bindE_def run_def effect_def
        whenJson_eq failSpinner_eq execFile_startSpinner
      split: sum.splits prod.splits)

lemma includes_plus_power: "\<not> includesStr ''power'' ''+''"
  by simp

lemma includes_plus_lock: "\<not> includesStr ''lock'' ''+''"
  by simp

lemma press_power_lock_same_state:
  assumes dev: "getDeviceId device w = (Inr D, w')"
  shows "(snd (press ''power'' device w))\<lparr>console := c\<rparr> =
         (snd (press ''lock'' device w))\<lparr>console := c\<rparr>"
proof -
  have p: "map_of (buttonMap D) ''power'' = Some [''ui'', ''button'', ''--udid'', D, ''--'', ''LOCK'']"
    by (simp add: buttonMap_def)
  have l: "map_of (buttonMap D) ''lock'' = Some [''ui'', ''button'', ''--udid'', D, ''--'', ''LOCK'']"
    by (simp add: buttonMap_def)
  have start: "(startSpinner m1 w')\<lparr>console := c\<rparr> = (startSpinner m2 w')\<lparr>console := c\<rparr>"
    for m1 m2 c
    by (simp add: startSpinner_def emit_def)
  have spin: "spinner (startSpinner m1 w') = spinner (startSpinner m2 w')" for m1 m2
    by (simp add: startSpinner_def emit_def)
  have lg: "(logSpawn i a)\<lparr>console := c\<rparr> = logSpawn i (a\<lparr>console := c\<rparr>)" for i a c
    by (simp add: logSpawn_def)
  have lgs: "spinner (logSpawn i a) = spinner a" for i a
    by (simp add: logSpawn_def)
  have st: "(stopSpinner b a)\<lparr>console := c\<rparr> =
              (if spinner a then (a\<lparr>console := c\<rparr>)\<lparr>spinner := False\<rparr> else a\<lparr>console := c\<rparr>)"
    for b a c
    by (simp add: stopSpinner_def emit_def)
  have su: "(success m a)\<lparr>console := c\<rparr> =
              (if spinner a then (a\<lparr>console := c\<rparr>)\<lparr>spinner := False\<rparr> else a\<lparr>console := c\<rparr>)"
    for m a c
    by (simp add: success_def emit_def)
  have lj: "(logJson j a)\<lparr>console := c\<rparr> = a\<lparr>console := c\<rparr>" for j a c
    by (simp add: logJson_def emit_def)
  let ?i = "(''idb'', [''ui'', ''button'', ''--udid'', D, ''--'', ''LOCK''])"
  let ?p = "startSpinner (''Pressing '' @ ''power'' @ '' button...'') w'"
  let ?l = "startSpinner (''Pressing '' @ ''lock'' @ '' button...'') w'"
  have base: "(logSpawn ?i ?p)\<lparr>console := c\<rparr> = (logSpawn ?i ?l)\<lparr>console := c\<rparr>"
    unfolding lg by (rule arg_cong [where f = "logSpawn ?i"], rule start)
  have sp: "spinner (logSpawn ?i ?p) = spinner (logSpawn ?i ?l)"
    unfolding lgs by (rule spin)
  show ?thesis
    unfolding press_single_world [OF schema_power dev includes_plus_power p]
      press_single_world [OF schema_lock dev includes_plus_lock l]
  proof (cases "execFile w' ?i")
    case (Inl e)
    show "(case execFile w' ?i of
        Inl e \<Rightarrow> stopSpinner False (logSpawn ?i ?p)
      | Inr r \<Rightarrow> logJson (JObj [(''success'', JBool True), (''button'', JStr ''power''),
                                  (''device'', JStr D)])
                   (success (''Pressed '' @ ''power'' @ '' button'') (logSpawn ?i ?p)))
        \<lparr>console := c\<rparr> =
      (case execFile w' ?i of
        Inl e \<Rightarrow> stopSpinner False (logSpawn ?i ?l)
      | Inr r \<Rightarrow> logJson (JObj [(''success'', JBool True), (''button'', JStr ''lock''),
                                  (''device'', JStr D)])
                   (success (''Pressed '' @ ''lock'' @ '' button'') (logSpawn ?i ?l)))
        \<lparr>console := c\<rparr>"
      by (simp only: Inl sum.case st sp base)
  next
    case (Inr r)
    show "(case execFile w' ?i of
        Inl e \<Rightarrow> stopSpinner False (logSpawn ?i ?p)
      | Inr r \<Rightarrow> logJson (JObj [(''success'', JBool True), (''button'', JStr ''power''),
                                  (''device'', JStr D)])
                   (success (''Pressed '' @ ''power'' @ '' button'') (logSpawn ?i ?p)))
        \<lparr>console := c\<rparr> =
      (case execFile w' ?i of
        Inl e \<Rightarrow> stopSpinner False (logSpawn ?i ?l)
      | Inr r \<Rightarrow> logJson (JObj [(''success'', JBool True), (''button'', JStr ''lock''),
                                  (''device'', JStr D)])
                   (success (''Pressed '' @ ''lock'' @ '' button'') (logSpawn ?i ?l)))
        \<lparr>console := c\<rparr>"
      by (simp only: Inr sum.case lj su sp base)
  qed
qed

text \<open>
  C10, as stated: press of \<^verbatim>\<open>power\<close> and press of \<^verbatim>\<open>lock\<close> are observationally equivalent
  operations. What the two print differs: the spinner texts and the success line in human
  mode, and the \<^verbatim>\<open>button\<close> field of the document in JSON mode, name the button as it was
  given.
\<close>

theorem press_power_lock_console_counterexample:
  "console (snd (press ''power'' None envWorld)) =
     [SpinnerStart ''Pressing power button...'', SpinnerSucceed (Some ''Pressed power button'')] \<and>
   console (snd (press ''lock'' None envWorld)) =
     [SpinnerStart ''Pressing lock button...'', SpinnerSucceed (Some ''Pressed lock button'')] \<and>
   console (snd (press ''power'' None (jsonMode envWorld))) =
     [ConsoleJson (JObj [(''success'', JBool True), (''button'', JStr ''power''),
                         (''device'', JStr exampleUdid)])] \<and>
   console (snd (press ''lock'' None (jsonMode envWorld))) =
     [ConsoleJson (JObj [(''success'', JBool True), (''button'', JStr ''lock''),
                         (''device'', JStr exampleUdid)])] \<and>
   console (snd (press ''power'' None envWorld)) \<noteq> console (snd (press ''lock'' None envWorld)) \<and>
   console (snd (press ''power'' None (jsonMode envWorld))) \<noteq>
     console (snd (press ''lock'' None (jsonMode envWorld)))"
proof -
  have p: "map_of (buttonMap exampleUdid) ''power'' =
             Some [''ui'', ''button'', ''--udid'', exampleUdid, ''--'', ''LOCK'']"
    by (simp add: buttonMap_def)
  have l: "map_of (buttonMap exampleUdid) ''lock'' =
             Some [''ui'', ''button'', ''--udid'', exampleUdid, ''--'', ''LOCK'']"
    by (simp add: buttonMap_def)
  have 1: "console (snd (press ''power'' None envWorld)) =
     [SpinnerStart ''Pressing power button...'', SpinnerSucceed (Some ''Pressed power button'')]"
    unfolding press_single_world [OF schema_power getDeviceId_envWorld includes_plus_power p]
    by (simp add: logSpawn_def startSpinner_def success_def logJson_def emit_def
          FORMAT_json_def shouldLog_def envWorld_def idleWorld_def)
  have 2: "console (snd (press ''lock'' None envWorld)) =
     [SpinnerStart ''Pressing lock button...'', SpinnerSucceed (Some ''Pressed lock button'')]"
    unfolding press_single_world [OF schema_lock getDeviceId_envWorld includes_plus_lock l]
    by (simp add: logSpawn_def startSpinner_def success_def logJson_def emit_def
          FORMAT_json_def shouldLog_def envWorld_def idleWorld_def)
  have 3: "console (snd (press ''power'' None (jsonMode envWorld))) =
     [ConsoleJson (JObj [(''success'', JBool True), (''button'', JStr ''power''),
                         (''device'', JStr exampleUdid)])]"
    unfolding press_single_world [OF schema_power getDeviceId_jsonEnvWorld includes_plus_power p]
    by (simp add: logSpawn_def startSpinner_def success_def logJson_def emit_def
          FORMAT_json_def shouldLog_def envWorld_def idleWorld_def jsonMode_def)
  have 4: "console (snd (press ''lock'' None (jsonMode envWorld))) =
     [ConsoleJson (JObj [(''success'', JBool True), (''button'', JStr ''lock''),
                         (''device'', JStr exampleUdid)])]"
    unfolding press_single_world [OF schema_lock getDeviceId_jsonEnvWorld includes_plus_lock l]
    by (simp add: logSpawn_def startSpinner_def success_def logJson_def emit_def
          FORMAT_json_def shouldLog_def envWorld_def idleWorld_def jsonMode_def)
  have 5: "console (snd (press ''power'' None envWorld)) \<noteq>
           console (snd (press ''lock'' None envWorld))"
    unfolding 1 2 by simp
  have 6: "console (snd (press ''power'' None (jsonMode envWorld))) \<noteq>
     console (snd (press ''lock'' None (jsonMode envWorld)))"
    unfolding 3 4 by simp
  show ?thesis
    by (intro conjI) (fact 1, fact 2, fact 3, fact 4, fact 5, fact 6)
qed

text \<open>
  C10, amended: for every device identifier D that the resolution yields, press of
  \<^verbatim>\<open>power\<close> and press of \<^verbatim>\<open>lock\<close> hand the same single invocation to the executor, the UI
  bridge with the vector ui, button, --udid, D, --, LOCK; they end the same way (both
  return, or both throw the same value) and leave the same state apart from what they
  have printed.
\<close>

theorem press_power_lock_same_invocation:
  "getDeviceId device w = (Inr D, w') \<Longrightarrow>
   spawned (snd (press ''power'' device w)) =
     spawned w' @ [(''idb'', [''ui'', ''button'', ''--udid'', D, ''--'', ''LOCK''])] \<and>
   spawned (snd (press ''lock'' device w)) =
     spawned w' @ [(''idb'', [''ui'', ''button'', ''--udid'', D, ''--'', ''LOCK''])] \<and>
   fst (press ''power'' device w) = fst (press ''lock'' device w) \<and>
   (snd (press ''power'' device w))\<lparr>console := c\<rparr> =
     (snd (press ''lock'' device w))\<lparr>console := c\<rparr>"
  using press_power_spawned press_lock_spawned press_power_lock_fst
    press_power_lock_same_state
  by blast

theorem press_power_lock_same_invocation_witness:
  "spawned (snd (press ''power'' None envWorld)) =
     [(''idb'', [''ui'', ''button'', ''--udid'', ''37A360EC-75F9-4AEC-8EFA-10F4A58D8CCA'',
                 ''--'', ''LOCK''])] \<and>
   spawned (snd (press ''lock'' None envWorld)) =
     [(''idb'', [''ui'', ''button'', ''--udid'', ''37A360EC-75F9-4AEC-8EFA-10F4A58D8CCA'',
                 ''--'', ''LOCK''])] \<and>
   fst (press ''power'' None envWorld) = fst (press ''lock'' None envWorld) \<and>
   (snd (press ''power'' None envWorld))\<lparr>console := []\<rparr> =
     (snd (press ''lock'' None envWorld))\<lparr>console := []\<rparr>"
  using press_power_lock_same_invocation [OF getDeviceId_envWorld, of "[]"]
  by (simp add: envWorld_def idleWorld_def exampleUdid_def)

subsection \<open>App installation\<close>

lemma install_unfold:
  "getDeviceId device w = (Inr D, w') \<Longrightarrow>
   install appPath device w =
     catchE
       (bindE (\<lambda>v. if \<not> accessOk v (absolutePathOf w' appPath)
                    then throwE (notFoundError (absolutePathOf w' appPath)) v
                    else returnE () v) (\<lambda>u.
        bindE (checkBundle (absolutePathOf w' appPath)) (\<lambda>u.
        bindE (run ''xcrun'' [''simctl'', ''install'', D, absolutePathOf w' appPath] None) (\<lambda>r.
          if stderr r \<noteq> [] \<and> \<not> includesStr (stderr r) ''successfully''
          then throwE (SimulatorError (''Installation failed: '' @ stderr r) GENERAL_ERROR None)
          else
            bindE (effect (success (''App installed successfully from: '' @ appPath))) (\<lambda>u.
            whenJson (JObj [(''success'', JBool True),
                            (''path'', JStr (absolutePathOf w' appPath)),
                            (''device'', JStr D)]))))))
       failSpinner (startSpinner (''Installing app from: '' @ appPath @ ''...'') w')"
  by (simp add: install_def bindE_def effect_def Let_def)

lemma absolutePathOf_keeps:
  "getDeviceId device w = (r, w') \<Longrightarrow> absolutePathOf w' appPath = absolutePathOf w appPath"
  using getDeviceId_keeps [of device w r w'] by (simp add: absolutePathOf_def)

lemma install_missing:
  assumes dev: "getDeviceId device w = (Inr D, w')"
    and missing: "\<not> accessOk w (absolutePathOf w appPath)"
  shows "fst (install appPath device w) = Inl (notFoundError (absolutePathOf w appPath))"
    and "spawned (snd (install appPath device w)) = spawned w'"
proof -
  note keep = getDeviceId_keeps [OF dev]
  note ap = absolutePathOf_keeps [OF dev]
  from keep missing have m: "\<not> accessOk w' (absolutePathOf w appPath)"
    by simp
  show "fst (install appPath device w) = Inl (notFoundError (absolutePathOf w appPath))"
    by (simp add: install_unfold [OF dev] ap fst_catch_fail bindE_def m throwE_def
          accessOk_startSpinner)
  show "spawned (snd (install appPath device w)) = spawned w'"
    by (simp add: install_unfold [OF dev] ap spawned_catch_fail bindE_def m throwE_def
          spawned_startSpinner accessOk_startSpinner)
qed

text \<open>
  The check that a \<^verbatim>\<open>.app\<close> is a directory sits inside the branch for extensions other than
  \<^verbatim>\<open>.app\<close> and \<^verbatim>\<open>.ipa\<close>: it never throws, and every existing path with one of the two
  extensions goes on to the install command, directory or not.
\<close>

lemma checkBundle_never_directory_error:
  "fst (checkBundle ap w) \<noteq>
     Inl (SimulatorError ''Invalid app bundle: .app should be a directory'' c s)"
  by (simp add: checkBundle_def Let_def throwE_def returnE_def)

lemma checkBundle_app_or_ipa:
  "toLowerCase (extname ap) = ''.app'' \<or> toLowerCase (extname ap) = ''.ipa'' \<Longrightarrow>
   checkBundle ap w = (Inr (), w)"
  by (auto simp: checkBundle_def Let_def returnE_def)

lemma install_existing_bundle:
  assumes dev: "getDeviceId device w = (Inr D, w')"
    and there: "accessOk w (absolutePathOf w appPath)"
    and ext: "toLowerCase (extname (absolutePathOf w appPath)) = ''.app'' \<or>
              toLowerCase (extname (absolutePathOf w appPath)) = ''.ipa''"
  shows "spawned (snd (install appPath device w)) =
           spawned w' @ [(''xcrun'', [''simctl'', ''install'', D, absolutePathOf w appPath])]"
proof -
  note keep = getDeviceId_keeps [OF dev]
  note ap = absolutePathOf_keeps [OF dev]
  from keep there have m: "accessOk w' (absolutePathOf w appPath)"
    by simp
  have cb: "bindE (checkBundle (absolutePathOf w appPath)) f v = f () v"
    for f :: "unit \<Rightarrow> unit action" and v
    by (simp add: bindE_def checkBundle_app_or_ipa [OF ext])
  show ?thesis
    by (simp add: install_unfold [OF dev] ap spawned_catch_fail bindE_guard m cb
          accessOk_startSpinner quiet_simps)
qed

lemma extname_MyApp_app: "toLowerCase (extname ''/path/to/MyApp.app'') = ''.app''"
  by (simp add: extname_def basenameRev_def toLowerCase_def toLowerChar_def)

lemma extname_MyApp_ipa: "toLowerCase (extname ''/path/to/MyApp.ipa'') = ''.ipa''"
  by (simp add: extname_def basenameRev_def toLowerCase_def toLowerChar_def)

lemma install_app_file_not_directory:
  "accessOk (fileWorld ''/path/to/MyApp.app'') ''/path/to/MyApp.app'' \<and>
   \<not> statIsDirectory (fileWorld ''/path/to/MyApp.app'') ''/path/to/MyApp.app'' \<and>
   spawned (snd (install ''/path/to/MyApp.app'' None (fileWorld ''/path/to/MyApp.app''))) =
     [(''xcrun'', [''simctl'', ''install'', exampleUdid, ''/path/to/MyApp.app''])]"
proof -
  have ap: "absolutePathOf (fileWorld ''/path/to/MyApp.app'') ''/path/to/MyApp.app'' =
              ''/path/to/MyApp.app''"
    by (simp add: absolutePathOf_def)
  have "spawned (snd (install ''/path/to/MyApp.app'' None (fileWorld ''/path/to/MyApp.app''))) =
     spawned (fileWorld ''/path/to/MyApp.app'') @
     [(''xcrun'', [''simctl'', ''install'', exampleUdid, ''/path/to/MyApp.app''])]"
    using install_existing_bundle [OF getDeviceId_fileWorld, of "''/path/to/MyApp.app''"
        "''/path/to/MyApp.app''"]
    by (simp add: ap extname_MyApp_app) (simp add: fileWorld_def)
  then show ?thesis
    by (simp add: fileWorld_def envWorld_def idleWorld_def)
qed

text \<open>
  C3, as stated: install of a path that does not exist fails with a file-not-found error
  before any process is spawned. Install resolves the device first. With no explicit
  device and no default, a path that does not exist and a booted device in the listing,
  the device-list query has been spawned when the file-not-found error is thrown; and
  when no device is booted, install fails with SimulatorNotFound instead.
\<close>

theorem install_missing_path_counterexample:
  "\<not> accessOk (listingWorld ''Booted'') ''/nonexistent/MyApp.app'' \<and>
   spawned (listingWorld ''Booted'') = [] \<and>
   spawned (snd (install ''/nonexistent/MyApp.app'' None (listingWorld ''Booted''))) =
     [(''xcrun'', [''simctl'', ''list'', ''devices'', ''--json''])] \<and>
   \<not> accessOk (listingWorld ''Shutdown'') ''/nonexistent/MyApp.app'' \<and>
   fst (install ''/nonexistent/MyApp.app'' None (listingWorld ''Shutdown'')) =
     Inl noBootedError \<and>
   exitCode (handleError noBootedError) = SIMULATOR_NOT_FOUND"
proof -
  have "\<not> accessOk (listingWorld ''Booted'')
          (absolutePathOf (listingWorld ''Booted'') ''/nonexistent/MyApp.app'')"
    by (simp add: listingWorld_def idleWorld_def)
  from install_missing(2) [OF getDeviceId_listing_Booted this]
  have "spawned (snd (install ''/nonexistent/MyApp.app'' None (listingWorld ''Booted''))) =
     [(''xcrun'', [''simctl'', ''list'', ''devices'', ''--json''])]"
    by (simp add: listingWorld_def idleWorld_def logSpawn_def listDevicesArgs_def)
  moreover have "fst (install ''/nonexistent/MyApp.app'' None (listingWorld ''Shutdown'')) =
     Inl noBootedError"
    by (simp add: install_def bindE_def getDeviceId_listing_Shutdown)
  ultimately show ?thesis
    by (simp add: listingWorld_def idleWorld_def noBootedError_def)
qed

text \<open>
  C3, amended: install resolves the device first (which may spawn the device-list query
  and may fail). Once the device is resolved, install of a path whose absolute form does
  not exist fails with the file-not-found error, exit code 6, and spawns no process
  beyond the resolution; with a format-valid explicit device it spawns none at all.
\<close>

theorem install_missing_path:
  "(getDeviceId device w = (Inr D, w') \<and> \<not> accessOk w (absolutePathOf w appPath)
      \<longrightarrow> fst (install appPath device w) = Inl (notFoundError (absolutePathOf w appPath)) \<and>
          spawned (snd (install appPath device w)) = spawned w') \<and>
   (udidSchema_success d \<and> \<not> accessOk w (absolutePathOf w appPath)
      \<longrightarrow> fst (install appPath (Some d) w) = Inl (notFoundError (absolutePathOf w appPath)) \<and>
          spawned (snd (install appPath (Some d) w)) = spawned w) \<and>
   exitCode (handleError (notFoundError p)) = FILE_NOT_FOUND \<and>
   ErrorCode_value FILE_NOT_FOUND = 6"
proof -
  have c1: "getDeviceId device w = (Inr D, w') \<and> \<not> accessOk w (absolutePathOf w appPath)
      \<longrightarrow> fst (install appPath device w) = Inl (notFoundError (absolutePathOf w appPath)) \<and>
          spawned (snd (install appPath device w)) = spawned w'"
    using install_missing [of device w D w' appPath] by blast
  have c2: "udidSchema_success d \<and> \<not> accessOk w (absolutePathOf w appPath)
      \<longrightarrow> fst (install appPath (Some d) w) = Inl (notFoundError (absolutePathOf w appPath)) \<and>
          spawned (snd (install appPath (Some d) w)) = spawned w"
    using install_missing [of "Some d" w d w appPath] getDeviceId_explicit [of d w] by blast
  have c3: "exitCode (handleError (notFoundError p)) = FILE_NOT_FOUND"
    by (simp add: notFoundError_def)
  show ?thesis
    by (intro conjI) (fact c1, fact c2, fact c3, simp)
qed

theorem install_missing_path_witness:
  "fst (install ''/nonexistent/MyApp.app'' None (listingWorld ''Booted'')) =
     Inl (notFoundError ''/nonexistent/MyApp.app'') \<and>
   spawned (snd (install ''/nonexistent/MyApp.app'' None (listingWorld ''Booted''))) =
     [(''xcrun'', [''simctl'', ''list'', ''devices'', ''--json''])] \<and>
   fst (install ''/nonexistent/MyApp.app'' (Some exampleUdid) (listingWorld ''Booted'')) =
     Inl (notFoundError ''/nonexistent/MyApp.app'') \<and>
   spawned (snd (install ''/nonexistent/MyApp.app'' (Some exampleUdid)
                   (listingWorld ''Booted''))) = []"
  using install_missing_path [of None "listingWorld ''Booted''" exampleUdid
      "logSpawn (''xcrun'', listDevicesArgs) (listingWorld ''Booted'')"
      "''/nonexistent/MyApp.app''" exampleUdid]
    getDeviceId_listing_Booted exampleUdid_ok
  by (simp add: absolutePathOf_def listingWorld_def idleWorld_def logSpawn_def
        listDevicesArgs_def)

subsection \<open>The end-of-options separator\<close>

lemma uninstall_unfold:
  "bundleIdSchema bundleId = Inr vb \<Longrightarrow> getDeviceId device w = (Inr D, w') \<Longrightarrow>
   uninstall bundleId device w =
     catchE
       (bindE (run ''xcrun'' [''simctl'', ''uninstall'', D, vb] None) (\<lambda>r.
          if stderr r \<noteq> [] \<and> \<not> includesStr (stderr r) ''successfully''
          then throwE (SimulatorError (''Uninstall failed: '' @ stderr r) GENERAL_ERROR None)
          else
            bindE (effect (success (''App '' @ bundleId @ '' uninstalled successfully''))) (\<lambda>u.
            whenJson (JObj [(''success'', JBool True), (''bundleId'', JStr bundleId),
                            (''device'', JStr D)]))))
       (\<lambda>error.
          bindE (effect (stopSpinner False)) (\<lambda>u.
          case errorMessage error of
            None \<Rightarrow> throwE error
          | Some m \<Rightarrow>
              if includesStr m ''No such file or directory''
              then throwE (SimulatorError (''App not found: '' @ bundleId) GENERAL_ERROR
                             (Some [''Check the bundle ID is correct'',
                                    ''List installed apps: sim-cli app-list'']))
              else throwE error))
       (startSpinner (''Uninstalling app: '' @ bundleId @ ''...'') w')"
  by (simp add: uninstall_def bindE_def liftE_def effect_def)

lemma uninstall_spawned:
  assumes ok: "bundleIdSchema bundleId = Inr vb" and dev: "getDeviceId device w = (Inr D, w')"
  shows "spawned (snd (uninstall bundleId device w)) =
           spawned w' @ [(''xcrun'', [''simctl'', ''uninstall'', D, vb])]"
proof -
  have h: "spawned (snd ((bindE (effect (stopSpinner False)) (\<lambda>u.
          case errorMessage error of
            None \<Rightarrow> throwE error
          | Some m \<Rightarrow>
              if includesStr m ''No such file or directory''
              then throwE (SimulatorError (''App not found: '' @ bundleId) GENERAL_ERROR
                             (Some [''Check the bundle ID is correct'',
                                    ''List installed apps: sim-cli app-list'']))
              else throwE error)) v)) = spawned v" for error v
    by (simp add: effect_bind spawned_throwE spawned_stopSpinner split: option.splits)
  show ?thesis
    by (simp add: uninstall_unfold [OF ok dev] spawned_catch_quiet [OF h] quiet_simps)
qed

lemma bundleId_dash: "bundleIdSchema ''-com.example.app'' = Inr ''-com.example.app''"
  by (simp add: bundleIdSchema_def bundleIdIssues_def isBundleIdChar_def)

text \<open>
  C1. The claim asks that every user-supplied file path and bundle identifier stand after
  a \<^verbatim>\<open>--\<close> in the vector. Install of an existing \<^verbatim>\<open>.ipa\<close> builds the vector simctl, install, D,
  path, and uninstall of a bundle identifier (here one that passes validation and starts
  with a dash) builds simctl, uninstall, D, identifier: neither vector holds a \<^verbatim>\<open>--\<close>.
\<close>

theorem install_uninstall_no_separator:
  "spawned (snd (install ''/path/to/MyApp.ipa'' None (fileWorld ''/path/to/MyApp.ipa''))) =
     [(''xcrun'', [''simctl'', ''install'', exampleUdid, ''/path/to/MyApp.ipa''])] \<and>
   ''--'' \<notin> set [''simctl'', ''install'', exampleUdid, ''/path/to/MyApp.ipa''] \<and>
   spawned (snd (uninstall ''-com.example.app'' None envWorld)) =
     [(''xcrun'', [''simctl'', ''uninstall'', exampleUdid, ''-com.example.app''])] \<and>
   ''--'' \<notin> set [''simctl'', ''uninstall'', exampleUdid, ''-com.example.app'']"
proof -
  have ap: "absolutePathOf (fileWorld ''/path/to/MyApp.ipa'') ''/path/to/MyApp.ipa'' =
              ''/path/to/MyApp.ipa''"
    by (simp add: absolutePathOf_def)
  have "spawned (snd (install ''/path/to/MyApp.ipa'' None (fileWorld ''/path/to/MyApp.ipa''))) =
     spawned (fileWorld ''/path/to/MyApp.ipa'') @
     [(''xcrun'', [''simctl'', ''install'', exampleUdid, ''/path/to/MyApp.ipa''])]"
    using install_existing_bundle [OF getDeviceId_fileWorld, of "''/path/to/MyApp.ipa''"
        "''/path/to/MyApp.ipa''"]
    by (simp add: ap extname_MyApp_ipa) (simp add: fileWorld_def)
  moreover have "spawned (snd (uninstall ''-com.example.app'' None envWorld)) =
     spawned envWorld @
     [(''xcrun'', [''simctl'', ''uninstall'', exampleUdid, ''-com.example.app''])]"
    by (rule uninstall_spawned [OF bundleId_dash getDeviceId_envWorld])
  ultimately show ?thesis
    by (simp add: fileWorld_def envWorld_def idleWorld_def exampleUdid_def)
qed

subsection \<open>Stopping a recording\<close>

text \<open>
  \<^verbatim>\<open>killProcess\<close> returns normally both when \<^verbatim>\<open>pkill\<close> signalled a process and when it matched
  none (exit status 1), so \<^verbatim>\<open>recordStop\<close> continues in the same way in both cases.
\<close>

lemma killProcess_no_match:
  "execFile w (''pkill'', [''-SIGINT'', ''-f'', pat]) = Inl (m, NumCode 1) \<Longrightarrow>
   killProcess pat w = (Inr (), logSpawn (''pkill'', [''-SIGINT'', ''-f'', pat]) w)"
  by (simp add: killProcess_def catchE_def bindE_def run_def returnE_def)

lemma killProcess_matched:
  "execFile w (''pkill'', [''-SIGINT'', ''-f'', pat]) = Inr r \<Longrightarrow>
   killProcess pat w = (Inr (), logSpawn (''pkill'', [''-SIGINT'', ''-f'', pat]) w)"
  by (simp add: killProcess_def catchE_def bindE_def run_def returnE_def)

lemma reportStopped_returns: "fst (reportStopped w) = Inr ()"
  by (simp add: reportStopped_def effect_bind whenJson_eq split: option.splits)

lemma recordStop_after_kill:
  assumes "killProcess ''simctl.*recordVideo'' (startSpinner ''Stopping video recording...'' w) =
             (Inr (), v)"
  shows "recordStop w = (Inr (), clearSession (snd (reportStopped v)))"
proof -
  obtain v' where r: "reportStopped v = (Inr (), v')"
    using reportStopped_returns [of v] by (cases "reportStopped v") simp
  show ?thesis
    by (simp add: recordStop_def effect_bind catchE_def bindE_def assms r effect_def)
qed

lemma recordStop_no_match_like_match:
  assumes "execFile w (''pkill'', [''-SIGINT'', ''-f'', ''simctl.*recordVideo'']) =
             Inl (m, NumCode 1)"
  shows "recordStop w =
           (Inr (), clearSession (snd (reportStopped
              (logSpawn (''pkill'', [''-SIGINT'', ''-f'', ''simctl.*recordVideo''])
                 (startSpinner ''Stopping video recording...'' w)))))"
  by (rule recordStop_after_kill, rule killProcess_no_match [where m = m])
     (simp add: execFile_startSpinner assms)

lemma recordStop_match:
  assumes "execFile w (''pkill'', [''-SIGINT'', ''-f'', ''simctl.*recordVideo'']) = Inr r"
  shows "recordStop w =
           (Inr (), clearSession (snd (reportStopped
              (logSpawn (''pkill'', [''-SIGINT'', ''-f'', ''simctl.*recordVideo''])
                 (startSpinner ''Stopping video recording...'' w)))))"
  by (rule recordStop_after_kill, rule killProcess_matched [where r = r])
     (simp add: execFile_startSpinner assms)

text \<open>
  C4. The claim asks that record-stop with no matching process report "no active
  recording", distinctly from a successful stop. It does return without an error in both
  modes, but what it prints is the report of a successful stop: in human mode the spinner
  succeeds with "Recording stopped", in JSON mode the document is success: true,
  recording: false. The world where \<^verbatim>\<open>pkill\<close> signalled a process (\<open>idleWorld\<close>) prints the same.
\<close>

theorem recordStop_no_match_reports_stopped:
  "fst (recordStop noMatchWorld) = Inr () \<and>
   console (snd (recordStop noMatchWorld)) =
     [SpinnerStart ''Stopping video recording...'',
      SpinnerSucceed (Some ''Recording stopped'')] \<and>
   console (snd (recordStop idleWorld)) =
     [SpinnerStart ''Stopping video recording...'',
      SpinnerSucceed (Some ''Recording stopped'')] \<and>
   fst (recordStop (jsonMode noMatchWorld)) = Inr () \<and>
   console (snd (recordStop (jsonMode noMatchWorld))) =
     [ConsoleJson (JObj [(''success'', JBool True), (''recording'', JBool False)])] \<and>
   console (snd (recordStop (jsonMode idleWorld))) =
     [ConsoleJson (JObj [(''success'', JBool True), (''recording'', JBool False)])]"
proof -
  have a: "execFile noMatchWorld (''pkill'', [''-SIGINT'', ''-f'', ''simctl.*recordVideo'']) =
             Inl (''Command failed: pkill -SIGINT -f simctl.*recordVideo'', NumCode 1)"
    by (simp add: noMatchWorld_def idleWorld_def)
  have b: "execFile idleWorld (''pkill'', [''-SIGINT'', ''-f'', ''simctl.*recordVideo'']) =
             Inr \<lparr>stdout = [], stderr = []\<rparr>"
    by (simp add: idleWorld_def)
  have c: "execFile (jsonMode noMatchWorld)
             (''pkill'', [''-SIGINT'', ''-f'', ''simctl.*recordVideo'']) =
             Inl (''Command failed: pkill -SIGINT -f simctl.*recordVideo'', NumCode 1)"
    by (simp add: noMatchWorld_def idleWorld_def jsonMode_def)
  have d: "execFile (jsonMode idleWorld)
             (''pkill'', [''-SIGINT'', ''-f'', ''simctl.*recordVideo'']) =
             Inr \<lparr>stdout = [], stderr = []\<rparr>"
    by (simp add: idleWorld_def jsonMode_def)
  have 1: "console (snd (recordStop noMatchWorld)) =
     [SpinnerStart ''Stopping video recording...'', SpinnerSucceed (Some ''Recording stopped'')]"
    unfolding recordStop_no_match_like_match [OF a]
    by (simp add: reportStopped_def effect_bind whenJson_eq
          clearSession_def logSpawn_def startSpinner_def success_def logJson_def emit_def
          FORMAT_json_def noMatchWorld_def idleWorld_def)
  have 2: "console (snd (recordStop idleWorld)) =
     [SpinnerStart ''Stopping video recording...'', SpinnerSucceed (Some ''Recording stopped'')]"
    unfolding recordStop_match [OF b]
    by (simp add: reportStopped_def effect_bind whenJson_eq
          clearSession_def logSpawn_def startSpinner_def success_def logJson_def emit_def
          FORMAT_json_def idleWorld_def)
  have 3: "console (snd (recordStop (jsonMode noMatchWorld))) =
     [ConsoleJson (JObj [(''success'', JBool True), (''recording'', JBool False)])]"
    unfolding recordStop_no_match_like_match [OF c]
    by (simp add: reportStopped_def effect_bind whenJson_eq
          clearSession_def logSpawn_def startSpinner_def success_def logJson_def emit_def
          FORMAT_json_def shouldLog_def noMatchWorld_def idleWorld_def jsonMode_def)
  have 4: "console (snd (recordStop (jsonMode idleWorld))) =
     [ConsoleJson (JObj [(''success'', JBool True), (''recording'', JBool False)])]"
    unfolding recordStop_match [OF d]
    by (simp add: reportStopped_def effect_bind whenJson_eq
          clearSession_def logSpawn_def startSpinner_def success_def logJson_def emit_def
          FORMAT_json_def shouldLog_def idleWorld_def jsonMode_def)
  have 5: "fst (recordStop noMatchWorld) = Inr ()"
    by (simp add: recordStop_no_match_like_match [OF a])
  have 6: "fst (recordStop (jsonMode noMatchWorld)) = Inr ()"
    by (simp add: recordStop_no_match_like_match [OF c])
  show ?thesis
    by (intro conjI) (fact 5, fact 1, fact 2, fact 6, fact 3, fact 4)
qed

subsection \<open>Starting a recording\<close>

text \<open>
  The wait never looks at whether the child has exited: it throws exactly when the
  confirmation is missing and the handle's \<^verbatim>\<open>killed\<close> property is set.
\<close>

lemma waitForStart_ignores_exit:
  "waitForStart (child\<lparr>exited := b\<rparr>) = waitForStart child"
  by (simp add: waitForStart_def split: prod.splits)

lemma waitForStart_throws_iff:
  "(\<exists>e. fst (waitForStart child w) = Inl e) =
   (\<not> fst (foldl onData (False, []) (stderrChunks child)) \<and> killed child)"
  by (cases "foldl onData (False, []) (stderrChunks child)")
     (auto simp: waitForStart_def returnE_def throwE_def)

lemma record_start_resolves:
  assumes dev: "getDeviceId device w = (Inr D, w')"
    and free: "\<not> accessOk w' (recordingPathOf w' path) \<or> force"
    and wait: "\<And>v. waitForStart (spawnChild w' (''xcrun'',
                  recordArgs D codec display maskPolicy force (recordingPathOf w' path))) v =
                (Inr (), v)"
  shows "record_start path codec display maskPolicy force device w =
     (Inr (),
      logJson (JObj [(''success'', JBool True), (''recording'', JBool True),
                     (''path'', JStr (recordingPathOf w' path)),
                     (''pid'', JNum (int (pid (spawnChild w' (''xcrun'',
                         recordArgs D codec display maskPolicy force
                           (recordingPathOf w' path)))))),
                     (''device'', JStr D)])
        (storeSession (recordingPathOf w' path)
           (pid (spawnChild w' (''xcrun'',
              recordArgs D codec display maskPolicy force (recordingPathOf w' path))))
          (info (''Run '' @ [CHR 0x22] @ ''sim-cli record-stop'' @ [CHR 0x22] @
                   '' to stop recording'')
            (success (''Recording started. Video will be saved to: '' @ recordingPathOf w' path)
              (logSpawn (''xcrun'',
                   recordArgs D codec display maskPolicy force (recordingPathOf w' path))
                (startSpinner ''Starting video recording...'' w'))))))"
  using free
  by (auto simp: record_start_def bindE_def dev Let_def effect_def catchE_def
        runBackground_def spawnChild_startSpinner wait whenJson_eq)

text \<open>
  C9. The claim asks for an error, carrying the captured text, when the child dies before
  confirming. In \<open>crashWorld\<close> the child prints an error and exits by itself within the
  three seconds, without the confirmation. The handler reads the handle's \<^verbatim>\<open>killed\<close>
  property, which is unset; it returns normally, announces the recording as started and
  stores the session (path and process identifier).
\<close>

theorem record_start_child_exit_unnoticed:
  "exited (spawnChild crashWorld (''xcrun'',
      recordArgs exampleUdid None None None False ''/tmp/out.mp4'')) \<and>
   fst (record_start (Some ''/tmp/out.mp4'') None None None False None crashWorld) = Inr () \<and>
   env (snd (record_start (Some ''/tmp/out.mp4'') None None None False None crashWorld))
     ''SIM_CLI_RECORDING_PATH'' = Some ''/tmp/out.mp4'' \<and>
   env (snd (record_start (Some ''/tmp/out.mp4'') None None None False None crashWorld))
     ''SIM_CLI_RECORDING_PID'' = Some ''4242'' \<and>
   console (snd (record_start (Some ''/tmp/out.mp4'') None None None False None crashWorld)) =
     [SpinnerStart ''Starting video recording...'',
      SpinnerSucceed (Some ''Recording started. Video will be saved to: /tmp/out.mp4''),
      ConsoleInfo (''Run '' @ [CHR 0x22] @ ''sim-cli record-stop'' @ [CHR 0x22] @
                   '' to stop recording'')]"
proof -
  have p: "recordingPathOf crashWorld (Some ''/tmp/out.mp4'') = ''/tmp/out.mp4''"
    by (simp add: recordingPathOf_def crashWorld_def envWorld_def idleWorld_def)
  have c: "spawnChild crashWorld call =
             \<lparr>pid = 4242, stderrChunks = [''Invalid device: '' @ exampleUdid], exited = True,
              killed = False\<rparr>" for call
    by (simp add: crashWorld_def envWorld_def idleWorld_def)
  have w: "waitForStart (spawnChild crashWorld call) v = (Inr (), v)" for call v
    by (simp add: c waitForStart_def returnE_def exampleUdid_def)
  have f: "\<not> accessOk crashWorld (recordingPathOf crashWorld (Some ''/tmp/out.mp4'')) \<or> False"
    by (simp add: crashWorld_def envWorld_def idleWorld_def)
  note r = record_start_resolves [OF getDeviceId_crashWorld f w, of None None None]
  show ?thesis
    unfolding r p c
    by (simp add: logJson_def storeSession_def info_def success_def logSpawn_def
          startSpinner_def emit_def FORMAT_json_def shouldLog_def crashWorld_def envWorld_def
          idleWorld_def showNat.simps)
qed

end
